theory Spec2Isabelle
  imports Complex_Main "HOL-Library.Multiset"
begin

section \<open>Route Options API: a shallow embedding of main.py\<close>

text \<open>
  The module is a single HTTP endpoint that fetches alternative routes from an OSRM
  server, derives fuel figures for the first \<open>k\<close> of them, scores them by the caller's
  preference and returns them sorted by score.

  Modelling decisions, all of them visible in the definitions below:
  \<^item> Python \<open>float\<close> is IEEE binary64, modelled by the datatype \<open>float64\<close>: a finite value
    (its exact value, a real), an infinity or NaN. Every arithmetic operation rounds its
    exact result to the nearest binary64, a tie to the even one, with gradual underflow
    and overflow to infinity. The sign of zero is not kept. Python \<open>int\<close> is \<open>int\<close>.
  \<^item> A parsed JSON document is a value of the datatype \<open>json\<close>; a \<open>dict\<close> is the list of its
    items, read with \<open>map_of\<close>. A JSON number with a fraction or an exponent is \<open>JFloat r\<close>,
    with \<open>r\<close> the value of its decimal text; Python reads it as the binary64 nearest to \<open>r\<close>.
    The texts \<open>NaN\<close> and \<open>Infinity\<close>, which are not JSON, are not modelled.
  \<^item> A raised exception is the \<open>Inl\<close> branch of a sum. \<open>HTTPException\<close> carries the status
    code and the detail; any other exception that leaves the handler is \<open>Uncaught\<close>.
  \<^item> The fields of a \<open>RouteOption\<close> are finite floats, held as their exact values. A float
    that is infinite or NaN cannot be written as JSON: the framework's encoder raises
    \<open>ValueError\<close> and the client gets status 500. The model raises that error where the
    option is built.
  \<^item> The request fields are floats as well: a real in a request stands for the binary64
    that the framework parsed.
  \<^item> The \<open>requests\<close> library is a parameter (a record of three functions) acting on a state
    of the network. A model of the library itself, on a network that logs every GET, is
    given further below.
  \<^item> Non-ASCII characters of the Spanish messages are written as their UTF-8 bytes.
\<close>

subsection \<open>Configuration\<close>

record config =
  OSRM_BASE_URL :: string
  DEFAULT_FUEL_L_PER_100KM :: real
  DEFAULT_FUEL_PRICE_PER_LITER :: int

subsection \<open>Values and exceptions\<close>

datatype json =
    JNull
  | JBool bool
  | JInt int
  | JFloat real
  | JStr string
  | JArr "json list"
  | JObj "(string \<times> json) list"

text \<open>The exception classes that occur, each with the text of \<open>str(e)\<close>.\<close>

datatype py_exc =
    ConnectionError string
  | ConnectTimeout string
  | ReadTimeout string
  | HTTPError string
  | JSONDecodeError string
  | KeyError string
  | TypeError string
  | AttributeError string
  | ValidationError string
  | OverflowError string
  | ValueError string

text \<open>
  \<open>isinstance(e, requests.ConnectionError)\<close> and \<open>isinstance(e, requests.RequestException)\<close>:
  \<open>ConnectTimeout\<close> is a subclass of \<open>ConnectionError\<close>, and the first five classes are
  subclasses of \<open>RequestException\<close>.
\<close>

fun is_ConnectionError :: "py_exc \<Rightarrow> bool" where
  "is_ConnectionError (ConnectionError s) = True"
| "is_ConnectionError (ConnectTimeout s) = True"
| "is_ConnectionError e = False"

fun is_RequestException :: "py_exc \<Rightarrow> bool" where
  "is_RequestException (ConnectionError s) = True"
| "is_RequestException (ConnectTimeout s) = True"
| "is_RequestException (ReadTimeout s) = True"
| "is_RequestException (HTTPError s) = True"
| "is_RequestException (JSONDecodeError s) = True"
| "is_RequestException e = False"

fun exc_str :: "py_exc \<Rightarrow> string" where
  "exc_str (ConnectionError s) = s"
| "exc_str (ConnectTimeout s) = s"
| "exc_str (ReadTimeout s) = s"
| "exc_str (HTTPError s) = s"
| "exc_str (JSONDecodeError s) = s"
| "exc_str (KeyError s) = s"
| "exc_str (TypeError s) = s"
| "exc_str (AttributeError s) = s"
| "exc_str (ValidationError s) = s"
| "exc_str (OverflowError s) = s"
| "exc_str (ValueError s) = s"

datatype error =
    HTTPException nat string
  | RequestValidationError "string list"
  | Uncaught py_exc

fun status_code :: "error \<Rightarrow> nat" where
  "status_code (HTTPException c d) = c"
| "status_code (RequestValidationError fs) = 422"
| "status_code (Uncaught e) = 500"

subsection \<open>Binary64 arithmetic\<close>

datatype float64 = Finite real | PosInf | NegInf | NaN

definition pow2 :: "int \<Rightarrow> real" where
  "pow2 e = (if 0 \<le> e then 2 ^ nat e else 1 / 2 ^ nat (- e))"

text \<open>
  The exponent of a value \<open>a\<close>: the greatest \<open>e\<close> from \<open>lo\<close> on with \<open>2 ^ e \<le> a\<close>, found by
  bisection over \<open>2 ^ n\<close> candidates, and \<open>lo\<close> when there is none. For binary64 the least
  exponent is \<open>-1022\<close>: below \<open>2 ^ -1022\<close> the values are subnormal and share its spacing.
\<close>

fun search_exp :: "real \<Rightarrow> int \<Rightarrow> nat \<Rightarrow> int" where
  "search_exp a lo 0 = lo"
| "search_exp a lo (Suc n) =
     (if pow2 (lo + 2 ^ n) \<le> a then search_exp a (lo + 2 ^ n) n else search_exp a lo n)"

definition expo :: "real \<Rightarrow> int" where
  "expo x = search_exp \<bar>x\<bar> (- 1022) 11"

text \<open>Rounding to the nearest integer, a tie to the even one.\<close>

definition round_half_even :: "real \<Rightarrow> int" where
  "round_half_even x =
     (let f = \<lfloor>x\<rfloor>; r = x - of_int f
      in if r < 1 / 2 then f else if 1 / 2 < r then f + 1 else if even f then f else f + 1)"

definition round_to_unit :: "real \<Rightarrow> real \<Rightarrow> real" where
  "round_to_unit u x = of_int (round_half_even (x / u)) * u"

definition in_range :: "real \<Rightarrow> real \<Rightarrow> float64" where
  "in_range x y = (if pow2 1024 \<le> \<bar>y\<bar> then (if 0 < x then PosInf else NegInf) else Finite y)"

text \<open>
  The binary64 nearest to a real: 53 significant bits, so the spacing at exponent \<open>e\<close> is
  \<open>2 ^ (e - 52)\<close>; a result of magnitude \<open>2 ^ 1024\<close> or more is an infinity.
\<close>

definition fl64 :: "real \<Rightarrow> float64" where
  "fl64 x = in_range x (round_to_unit (pow2 (expo x - 52)) x)"

text \<open>\<open>x * y\<close> on floats.\<close>

fun fmul :: "float64 \<Rightarrow> float64 \<Rightarrow> float64" where
  "fmul (Finite a) (Finite b) = fl64 (a * b)"
| "fmul NaN y = NaN"
| "fmul x NaN = NaN"
| "fmul (Finite a) PosInf = (if a = 0 then NaN else if 0 < a then PosInf else NegInf)"
| "fmul (Finite a) NegInf = (if a = 0 then NaN else if 0 < a then NegInf else PosInf)"
| "fmul PosInf (Finite b) = (if b = 0 then NaN else if 0 < b then PosInf else NegInf)"
| "fmul NegInf (Finite b) = (if b = 0 then NaN else if 0 < b then NegInf else PosInf)"
| "fmul PosInf PosInf = PosInf"
| "fmul PosInf NegInf = NegInf"
| "fmul NegInf PosInf = NegInf"
| "fmul NegInf NegInf = PosInf"

text \<open>
  \<open>x / c\<close> for a float \<open>x\<close> and a float literal \<open>c\<close> that is finite and not zero, as
  \<open>1000.0\<close>, \<open>60.0\<close> and \<open>100.0\<close> are (Python raises \<open>ZeroDivisionError\<close> for a zero divisor;
  the program has none).
\<close>

fun fdiv :: "float64 \<Rightarrow> real \<Rightarrow> float64" where
  "fdiv (Finite a) c = fl64 (a / c)"
| "fdiv PosInf c = (if 0 < c then PosInf else NegInf)"
| "fdiv NegInf c = (if 0 < c then NegInf else PosInf)"
| "fdiv NaN c = NaN"

text \<open>\<open>x <= y\<close> on floats: false when either is NaN.\<close>

fun fle :: "float64 \<Rightarrow> float64 \<Rightarrow> bool" where
  "fle (Finite a) (Finite b) = (a \<le> b)"
| "fle NaN y = False"
| "fle x NaN = False"
| "fle NegInf y = True"
| "fle x PosInf = True"
| "fle PosInf y = False"
| "fle x NegInf = False"

text \<open>
  The conversion of an \<open>int\<close> operand of a float operation: the nearest float, and
  \<open>OverflowError\<close> when there is none.
\<close>

definition float_of_int :: "int \<Rightarrow> py_exc + float64" where
  "float_of_int i =
     (case fl64 (of_int i) of
        Finite y \<Rightarrow> Inr (Finite y)
      | _ \<Rightarrow> Inl (OverflowError ''int too large to convert to float''))"

text \<open>
  \<open>round(x, n)\<close> on a float, for \<open>n \<ge> 0\<close>: the exact value of \<open>x\<close> is rounded to the nearest
  multiple of \<open>10 ^ - n\<close>, a tie to the even one, and the result is the float nearest to
  that decimal. An infinity or NaN is returned as it is.
\<close>

definition round_decimal :: "real \<Rightarrow> nat \<Rightarrow> real" where
  "round_decimal x n = of_int (round_half_even (x * 10 ^ n)) / 10 ^ n"

fun py_round :: "float64 \<Rightarrow> nat \<Rightarrow> float64" where
  "py_round (Finite a) n = fl64 (round_decimal a n)"
| "py_round x n = x"

text \<open>A float of the response, as the JSON encoder takes it.\<close>

fun json_float :: "float64 \<Rightarrow> py_exc + real" where
  "json_float (Finite a) = Inr a"
| "json_float x = Inl (ValueError ''Out of range float values are not JSON compliant'')"

text \<open>The value of the float literal with decimal text \<open>x\<close>.\<close>

definition f64 :: "real \<Rightarrow> real" where
  "f64 x = (case fl64 x of Finite y \<Rightarrow> y | _ \<Rightarrow> 0)"

subsection \<open>Models\<close>

record LatLng =
  lat :: real
  lng :: real

record VehicleConfig =
  fuel_l_per_100km :: real

record RouteOptionsRequest =
  origin :: LatLng
  destination :: LatLng
  preference :: string
  k :: int
  fuel_price_per_liter :: int
  vehicle :: VehicleConfig

record RouteOption =
  id_str :: string
  distance_km :: real
  duration_min :: real
  fuel_liters :: real
  fuel_cost_cop :: real
  score :: real
  geojson :: "(string \<times> json) list"

record RouteOptionsResponse =
  resp_preference :: string
  requested :: int
  returned :: int
  routes :: "RouteOption list"

text \<open>The four values of the \<open>Preference\<close> literal type.\<close>

definition Preference :: "string list" where
  "Preference = [''FASTEST'', ''LOW_FUEL'', ''CHEAPEST'', ''SHORT_DISTANCE'']"

subsection \<open>Request validation (the pydantic constraints of the models)\<close>

text \<open>
  The request body as it arrives: fields with a default may be absent. A default is taken
  as it is, without validation.
\<close>

record VehicleBody =
  body_fuel_l_per_100km :: "real option"

record RouteOptionsBody =
  body_origin :: LatLng
  body_destination :: LatLng
  body_preference :: "string option"
  body_k :: "int option"
  body_fuel_price_per_liter :: "int option"
  body_vehicle :: "VehicleBody option"

definition check_LatLng :: "string \<Rightarrow> LatLng \<Rightarrow> string list" where
  "check_LatLng name p =
     (if - 90 \<le> lat p \<and> lat p \<le> 90 then [] else [name @ ''.lat'']) @
     (if - 180 \<le> lng p \<and> lng p \<le> 180 then [] else [name @ ''.lng''])"

definition check_preference :: "string option \<Rightarrow> string list" where
  "check_preference p =
     (case p of None \<Rightarrow> []
      | Some s \<Rightarrow> if s \<in> set Preference then [] else [''preference''])"

definition check_k :: "int option \<Rightarrow> string list" where
  "check_k v =
     (case v of None \<Rightarrow> []
      | Some n \<Rightarrow> if 1 \<le> n \<and> n \<le> 5 then [] else [''k''])"

definition check_fuel_price :: "int option \<Rightarrow> string list" where
  "check_fuel_price v =
     (case v of None \<Rightarrow> []
      | Some n \<Rightarrow> if 0 \<le> n \<and> n \<le> 200000 then [] else [''fuel_price_per_liter''])"

definition check_vehicle :: "VehicleBody option \<Rightarrow> string list" where
  "check_vehicle v =
     (case v of None \<Rightarrow> []
      | Some b \<Rightarrow>
          (case body_fuel_l_per_100km b of None \<Rightarrow> []
           | Some r \<Rightarrow> if 0 < r \<and> r \<le> 50 then [] else [''vehicle.fuel_l_per_100km'']))"

definition validation_errors :: "RouteOptionsBody \<Rightarrow> string list" where
  "validation_errors b =
     check_LatLng ''origin'' (body_origin b) @
     check_LatLng ''destination'' (body_destination b) @
     check_preference (body_preference b) @
     check_k (body_k b) @
     check_fuel_price (body_fuel_price_per_liter b) @
     check_vehicle (body_vehicle b)"

definition parse_request :: "config \<Rightarrow> RouteOptionsBody \<Rightarrow> error + RouteOptionsRequest" where
  "parse_request cfg b =
     (case validation_errors b of
        [] \<Rightarrow>
          Inr \<lparr> origin = body_origin b,
                destination = body_destination b,
                preference = (case body_preference b of None \<Rightarrow> ''FASTEST'' | Some s \<Rightarrow> s),
                k = (case body_k b of None \<Rightarrow> 3 | Some n \<Rightarrow> n),
                fuel_price_per_liter =
                  (case body_fuel_price_per_liter b of
                     None \<Rightarrow> DEFAULT_FUEL_PRICE_PER_LITER cfg | Some n \<Rightarrow> n),
                vehicle =
                  \<lparr> fuel_l_per_100km =
                      (case body_vehicle b of
                         None \<Rightarrow> DEFAULT_FUEL_L_PER_100KM cfg
                       | Some v \<Rightarrow>
                           (case body_fuel_l_per_100km v of
                              None \<Rightarrow> DEFAULT_FUEL_L_PER_100KM cfg | Some r \<Rightarrow> r)) \<rparr> \<rparr>
      | e # es \<Rightarrow> Inl (RequestValidationError (e # es)))"

subsection \<open>Helpers\<close>

definition estimate_fuel :: "float64 \<Rightarrow> float64 \<Rightarrow> float64" where
  "estimate_fuel distance_km' fuel_l_per_100km' = fdiv (fmul distance_km' fuel_l_per_100km') 100"

definition score_route :: "string \<Rightarrow> 'a \<Rightarrow> 'a \<Rightarrow> 'a \<Rightarrow> 'a \<Rightarrow> 'a" where
  "score_route pref distance_km' duration_min' fuel_liters' fuel_cost =
     (if pref = ''FASTEST'' then duration_min'
      else if pref = ''SHORT_DISTANCE'' then distance_km'
      else if pref = ''LOW_FUEL'' then fuel_liters'
      else if pref = ''CHEAPEST'' then fuel_cost
      else duration_min')"

subsection \<open>The upstream fetcher\<close>

record http_request =
  url_base :: string
  url_coords :: "(real \<times> real) \<times> (real \<times> real)"
  params :: "(string \<times> string) list"
  timeout :: nat

text \<open>
  The three calls of the \<open>requests\<close> library made in the \<open>try\<close> block. \<open>requests.get\<close> acts
  on the network, whose state is of type \<open>'w\<close>; the other two read the response.
\<close>

record ('r, 'w) requests =
  requests_get :: "http_request \<Rightarrow> 'w \<Rightarrow> (py_exc + 'r) \<times> 'w"
  raise_for_status :: "'r \<Rightarrow> py_exc + unit"
  response_json :: "'r \<Rightarrow> py_exc + json"

definition no_connection_detail :: "string \<Rightarrow> string" where
  "no_connection_detail base =
     ''No hay conexi'' @ [CHR 0xC3, CHR 0xB3] @ ''n con OSRM en '' @ base @
     ''. Verifica que OSRM est'' @ [CHR 0xC3, CHR 0xA9] @ '' activo.''"

definition try_body :: "('r, 'w) requests \<Rightarrow> http_request \<Rightarrow> 'w \<Rightarrow> (py_exc + json) \<times> 'w" where
  "try_body lib rq calls =
     (case requests_get lib rq calls of
        (Inl e, calls') \<Rightarrow> (Inl e, calls')
      | (Inr r, calls') \<Rightarrow>
          (case raise_for_status lib r of
             Inl e \<Rightarrow> (Inl e, calls')
           | Inr u \<Rightarrow> (response_json lib r, calls')))"

text \<open>The URL, the query parameters and the timeout of the one GET.\<close>

definition osrm_request :: "config \<Rightarrow> LatLng \<Rightarrow> LatLng \<Rightarrow> http_request" where
  "osrm_request cfg origin' dest =
     \<lparr> url_base = OSRM_BASE_URL cfg,
       url_coords = ((lng origin', lat origin'), (lng dest, lat dest)),
       params = [(''alternatives'', ''true''), (''overview'', ''full''),
                 (''geometries'', ''geojson''), (''steps'', ''false'')],
       timeout = 20 \<rparr>"

text \<open>The two \<open>except\<close> clauses, in their order; any other exception propagates.\<close>

definition osrm_get_routes ::
  "config \<Rightarrow> ('r, 'w) requests \<Rightarrow> LatLng \<Rightarrow> LatLng \<Rightarrow> 'w \<Rightarrow> (error + json) \<times> 'w" where
  "osrm_get_routes cfg lib origin' dest calls =
     (case try_body lib (osrm_request cfg origin' dest) calls of
        (Inr j, calls') \<Rightarrow> (Inr j, calls')
      | (Inl e, calls') \<Rightarrow>
          if is_ConnectionError e
          then (Inl (HTTPException 502 (no_connection_detail (OSRM_BASE_URL cfg))), calls')
          else if is_RequestException e
          then (Inl (HTTPException 502 (''OSRM error: '' @ exc_str e)), calls')
          else (Inl (Uncaught e), calls'))"

subsection \<open>Python operations on parsed JSON\<close>

text \<open>\<open>data.get(key, default)\<close>: only a dict has the method.\<close>

fun dict_get :: "json \<Rightarrow> string \<Rightarrow> json \<Rightarrow> py_exc + json" where
  "dict_get (JObj kvs) key dflt = (case map_of kvs key of None \<Rightarrow> Inr dflt | Some v \<Rightarrow> Inr v)"
| "dict_get j key dflt = Inl (AttributeError ''get'')"

text \<open>\<open>rt[key]\<close> with a string key.\<close>

fun getitem :: "json \<Rightarrow> string \<Rightarrow> py_exc + json" where
  "getitem (JObj kvs) key = (case map_of kvs key of None \<Rightarrow> Inl (KeyError key) | Some v \<Rightarrow> Inr v)"
| "getitem j key = Inl (TypeError ''subscript'')"

text \<open>Truth value of an object, as \<open>not routes\<close> tests it.\<close>

fun truthy :: "json \<Rightarrow> bool" where
  "truthy JNull = False"
| "truthy (JBool b) = b"
| "truthy (JInt i) = (i \<noteq> 0)"
| "truthy (JFloat r) = (fl64 r \<noteq> Finite 0)"
| "truthy (JStr s) = (s \<noteq> [])"
| "truthy (JArr xs) = (xs \<noteq> [])"
| "truthy (JObj kvs) = (kvs \<noteq> [])"

text \<open>\<open>xs[:n]\<close> on a sequence: a negative bound counts from the end.\<close>

definition slice_to :: "'a list \<Rightarrow> int \<Rightarrow> 'a list" where
  "slice_to xs n = (if 0 \<le> n then take (nat n) xs else take (nat (int (length xs) + n)) xs)"

text \<open>The items that \<open>enumerate(routes[: req.k], start=1)\<close> iterates over.\<close>

fun sliced_items :: "json \<Rightarrow> int \<Rightarrow> py_exc + json list" where
  "sliced_items (JArr xs) n = Inr (slice_to xs n)"
| "sliced_items (JStr s) n = Inr (map (\<lambda>c. JStr [c]) (slice_to s n))"
| "sliced_items j n = Inl (TypeError ''slice'')"

text \<open>
  The left operand of \<open>/ 1000.0\<close> and \<open>/ 60.0\<close>: a number (\<open>bool\<close> is a subclass of \<open>int\<close>).
  An \<open>int\<close> is converted to a float first.
\<close>

fun as_float :: "json \<Rightarrow> py_exc + float64" where
  "as_float (JInt i) = float_of_int i"
| "as_float (JFloat r) = Inr (fl64 r)"
| "as_float (JBool b) = Inr (Finite (if b then 1 else 0))"
| "as_float j = Inl (TypeError ''/'')"

text \<open>\<open>str(idx)\<close> for the identifier \<open>f"r{idx}"\<close>.\<close>

definition digit_char :: "nat \<Rightarrow> char" where
  "digit_char d = ''0123456789'' ! d"

fun str_nat :: "nat \<Rightarrow> string" where
  "str_nat n = (if n < 10 then [digit_char n] else str_nat (n div 10) @ [digit_char (n mod 10)])"

declare str_nat.simps [simp del]

subsection \<open>The endpoint\<close>

text \<open>
  The body of the \<open>for\<close> loop: one \<open>RouteOption\<close> from one upstream route. The five floats
  of the option are taken by \<open>json_float\<close> last, after everything the loop body itself can
  raise.
\<close>

definition build_option :: "RouteOptionsRequest \<Rightarrow> nat \<Rightarrow> json \<Rightarrow> py_exc + RouteOption" where
  "build_option req idx rt =
     (case getitem rt ''distance'' of Inl e \<Rightarrow> Inl e | Inr dj \<Rightarrow>
     (case as_float dj of Inl e \<Rightarrow> Inl e | Inr d \<Rightarrow>
     (case getitem rt ''duration'' of Inl e \<Rightarrow> Inl e | Inr tj \<Rightarrow>
     (case as_float tj of Inl e \<Rightarrow> Inl e | Inr t \<Rightarrow>
     (case float_of_int (fuel_price_per_liter req) of Inl e \<Rightarrow> Inl e | Inr price \<Rightarrow>
       (let dist_km = fdiv d 1000;
            dur_min = fdiv t 60;
            fuel_l = estimate_fuel dist_km (fl64 (fuel_l_per_100km (vehicle req)));
            fuel_cost = fmul fuel_l price;
            sc = score_route (preference req) dist_km dur_min fuel_l fuel_cost
        in (case getitem rt ''geometry'' of Inl e \<Rightarrow> Inl e | Inr g \<Rightarrow>
           (case g of
              JObj kvs \<Rightarrow>
                (case json_float (py_round dist_km 3) of Inl e \<Rightarrow> Inl e | Inr f1 \<Rightarrow>
                (case json_float (py_round dur_min 1) of Inl e \<Rightarrow> Inl e | Inr f2 \<Rightarrow>
                (case json_float (py_round fuel_l 3) of Inl e \<Rightarrow> Inl e | Inr f3 \<Rightarrow>
                (case json_float (py_round fuel_cost 0) of Inl e \<Rightarrow> Inl e | Inr f4 \<Rightarrow>
                (case json_float sc of Inl e \<Rightarrow> Inl e | Inr f5 \<Rightarrow>
                   Inr \<lparr> id_str = ''r'' @ str_nat idx,
                         distance_km = f1,
                         duration_min = f2,
                         fuel_liters = f3,
                         fuel_cost_cop = f4,
                         score = f5,
                         geojson = kvs \<rparr>)))))
            | _ \<Rightarrow> Inl (ValidationError ''geojson'')))))))))"

text \<open>The \<open>for\<close> loop: \<open>idx\<close> counts from its start value, \<open>out\<close> grows by \<open>append\<close>.\<close>

fun build_loop ::
  "RouteOptionsRequest \<Rightarrow> nat \<Rightarrow> json list \<Rightarrow> RouteOption list \<Rightarrow> py_exc + RouteOption list" where
  "build_loop req idx [] out = Inr out"
| "build_loop req idx (rt # rts) out =
     (case build_option req idx rt of
        Inl e \<Rightarrow> Inl e
      | Inr opt \<Rightarrow> build_loop req (Suc idx) rts (out @ [opt]))"

text \<open>The handler, after \<open>data\<close> has been fetched.\<close>

definition rank_routes :: "RouteOptionsRequest \<Rightarrow> json \<Rightarrow> error + RouteOptionsResponse" where
  "rank_routes req data =
     (case dict_get data ''routes'' (JArr []) of
        Inl e \<Rightarrow> Inl (Uncaught e)
      | Inr rs \<Rightarrow>
          if \<not> truthy rs then Inl (HTTPException 404 ''No se encontraron rutas'')
          else
            (case sliced_items rs (k req) of
               Inl e \<Rightarrow> Inl (Uncaught e)
             | Inr items \<Rightarrow>
                 (case build_loop req 1 items [] of
                    Inl e \<Rightarrow> Inl (Uncaught e)
                  | Inr out \<Rightarrow>
                      if preference req \<in> set Preference
                      then Inr \<lparr> resp_preference = preference req,
                                 requested = k req,
                                 returned = int (length out),
                                 routes = sort_key score out \<rparr>
                      else Inl (Uncaught (ValidationError ''preference'')))))"

definition route_options ::
  "config \<Rightarrow> ('r, 'w) requests \<Rightarrow> RouteOptionsRequest \<Rightarrow> 'w
     \<Rightarrow> (error + RouteOptionsResponse) \<times> 'w" where
  "route_options cfg lib req calls =
     (case osrm_get_routes cfg lib (origin req) (destination req) calls of
        (Inl e, calls') \<Rightarrow> (Inl e, calls')
      | (Inr data, calls') \<Rightarrow> (rank_routes req data, calls'))"

text \<open>
  \<open>POST /route-options\<close>: the framework validates the body against \<open>RouteOptionsRequest\<close>
  and calls the handler only with a valid request.
\<close>

definition post_route_options ::
  "config \<Rightarrow> ('r, 'w) requests \<Rightarrow> RouteOptionsBody \<Rightarrow> 'w
     \<Rightarrow> (error + RouteOptionsResponse) \<times> 'w" where
  "post_route_options cfg lib body calls =
     (case parse_request cfg body of
        Inl e \<Rightarrow> (Inl e, calls)
      | Inr req \<Rightarrow> route_options cfg lib req calls)"

subsection \<open>The \<open>requests\<close> library on a network that logs\<close>

text \<open>
  A response as the handler reads it: the status code, the text that \<open>raise_for_status\<close>
  gives its exception (the library builds it from the status, the reason phrase and the
  URL), and the body, parsed: \<open>Inr\<close> the JSON value, or \<open>Inl\<close> the decoder's message when the
  body is not JSON.
\<close>

record http_response =
  resp_status :: nat
  resp_error_text :: string
  resp_body :: "string + json"

text \<open>
  What one HTTP attempt meets: no connection (refused, or no such host), no connection
  within the timeout, no answer within the timeout, or a response. Each failure carries the
  text of its exception. Redirects are followed by the library, so the response is the
  last one.
\<close>

datatype net_event =
    Unreachable string
  | ConnectTimedOut string
  | ReadTimedOut string
  | Responded http_response

text \<open>
  The network: what the upstream does at the first, second, ... attempt, and the requests
  sent so far. Every \<open>requests.get\<close> sends one request and meets the next event. In the
  library \<open>ConnectTimeout\<close> is a subclass of \<open>ConnectionError\<close>, \<open>ReadTimeout\<close> is not.
\<close>

record net =
  upstream :: "nat \<Rightarrow> net_event"
  sent :: "http_request list"

definition http_get :: "http_request \<Rightarrow> net \<Rightarrow> (py_exc + http_response) \<times> net" where
  "http_get rq w =
     ((case upstream w (length (sent w)) of
         Unreachable s \<Rightarrow> Inl (ConnectionError s)
       | ConnectTimedOut s \<Rightarrow> Inl (ConnectTimeout s)
       | ReadTimedOut s \<Rightarrow> Inl (ReadTimeout s)
       | Responded r \<Rightarrow> Inr r),
      w\<lparr>sent := sent w @ [rq]\<rparr>)"

text \<open>\<open>Response.raise_for_status\<close> raises \<open>HTTPError\<close> for the status codes 400 to 599.\<close>

definition http_raise_for_status :: "http_response \<Rightarrow> py_exc + unit" where
  "http_raise_for_status r =
     (if 400 \<le> resp_status r \<and> resp_status r < 600
      then Inl (HTTPError (resp_error_text r)) else Inr ())"

text \<open>\<open>Response.json\<close> raises \<open>requests.JSONDecodeError\<close> for a body that is not JSON.\<close>

definition http_json :: "http_response \<Rightarrow> py_exc + json" where
  "http_json r =
     (case resp_body r of Inl msg \<Rightarrow> Inl (JSONDecodeError msg) | Inr j \<Rightarrow> Inr j)"

definition requests_lib :: "(http_response, net) requests" where
  "requests_lib =
     \<lparr> requests_get = http_get,
       raise_for_status = http_raise_for_status,
       response_json = http_json \<rparr>"

subsection \<open>A concrete configuration and upstream, for evaluation\<close>

definition cfg0 :: config where
  "cfg0 = \<lparr> OSRM_BASE_URL = ''https://osrm-popayan-production.up.railway.app'',
            DEFAULT_FUEL_L_PER_100KM = 75 / 10,
            DEFAULT_FUEL_PRICE_PER_LITER = 15000 \<rparr>"

text \<open>A network on which nothing was sent yet and every attempt meets the same event.\<close>

definition net_of :: "net_event \<Rightarrow> net" where
  "net_of ev = \<lparr> upstream = (\<lambda>n. ev), sent = [] \<rparr>"

text \<open>A response with the given status, error text and body; the response 200 with a JSON body.\<close>

definition answered :: "nat \<Rightarrow> string \<Rightarrow> string + json \<Rightarrow> net_event" where
  "answered st txt b = Responded \<lparr> resp_status = st, resp_error_text = txt, resp_body = b \<rparr>"

definition ok :: "json \<Rightarrow> net_event" where
  "ok j = answered 200 [] (Inr j)"

text \<open>A network whose first attempt fails and whose later attempts would succeed.\<close>

definition net_flaky :: "net_event \<Rightarrow> json \<Rightarrow> net" where
  "net_flaky ev j = \<lparr> upstream = (\<lambda>n. if n = 0 then ev else ok j), sent = [] \<rparr>"

definition route_json :: "int \<Rightarrow> int \<Rightarrow> json" where
  "route_json meters seconds =
     JObj [(''distance'', JInt meters), (''duration'', JInt seconds),
           (''geometry'', JObj [(''type'', JStr ''LineString'')])]"

definition body0 :: RouteOptionsBody where
  "body0 = \<lparr> body_origin = \<lparr> lat = 24448 / 10000, lng = - 766147 / 10000 \<rparr>,
             body_destination = \<lparr> lat = 2455 / 1000, lng = - 76598 / 1000 \<rparr>,
             body_preference = Some ''FASTEST'',
             body_k = Some 3,
             body_fuel_price_per_liter = None,
             body_vehicle = None \<rparr>"

definition req0 :: RouteOptionsRequest where
  "req0 = \<lparr> origin = body_origin body0, destination = body_destination body0,
            preference = ''FASTEST'', k = 3, fuel_price_per_liter = 15000,
            vehicle = \<lparr> fuel_l_per_100km = 75 / 10 \<rparr> \<rparr>"

definition o0 :: LatLng where
  "o0 = body_origin body0"

definition d0 :: LatLng where
  "d0 = body_destination body0"

text \<open>The network after the one request of \<open>body0\<close>.\<close>

definition once :: "net \<Rightarrow> net" where
  "once w = w\<lparr>sent := sent w @ [osrm_request cfg0 o0 d0]\<rparr>"

text \<open>
  Four upstream alternatives, in the upstream's order. The first and the third take the same
  time; the fourth is the fastest of all.
\<close>

definition route1 :: json where
  "route1 = JObj [(''distance'', JFloat (12345678 / 1000)), (''duration'', JInt 601),
                  (''geometry'', JObj [(''type'', JStr ''LineString'')])]"

definition data4 :: json where
  "data4 = JObj [(''code'', JStr ''Ok''),
                 (''routes'', JArr [route1, route_json 6000 720, route_json 5400 601,
                                    route_json 4000 100])]"

text \<open>
  The response to \<open>body0\<close> (\<open>k = 3\<close>, \<open>FASTEST\<close>, default vehicle and price) on \<open>data4\<close>: the
  options of the first three routes, the third before the second.
\<close>

definition opt1 :: RouteOption where
  "opt1 = \<lparr> id_str = ''r1'', distance_km = f64 (12346 / 1000), duration_min = 10,
             fuel_liters = f64 (926 / 1000), fuel_cost_cop = 13889, score = f64 (601 / 60),
             geojson = [(''type'', JStr ''LineString'')] \<rparr>"

definition opt2 :: RouteOption where
  "opt2 = \<lparr> id_str = ''r2'', distance_km = 6, duration_min = 12,
             fuel_liters = f64 (45 / 100), fuel_cost_cop = 6750, score = 12,
             geojson = [(''type'', JStr ''LineString'')] \<rparr>"

definition opt3 :: RouteOption where
  "opt3 = \<lparr> id_str = ''r3'', distance_km = f64 (54 / 10), duration_min = 10,
             fuel_liters = f64 (405 / 1000), fuel_cost_cop = 6075, score = f64 (601 / 60),
             geojson = [(''type'', JStr ''LineString'')] \<rparr>"

definition resp4 :: RouteOptionsResponse where
  "resp4 = \<lparr> resp_preference = ''FASTEST'', requested = 3, returned = 3,
             routes = [opt1, opt3, opt2] \<rparr>"

text \<open>
  The options of two short routes that take 603 seconds, for the request of \<open>body0\<close>. The
  floats differ from the exact quotients: \<open>603 / 60.0\<close> is above 10.05 and is rounded to
  10.1; the fuel of 100 metres is below 0.0075 and is rounded to 0.007; the cost of 28
  metres is below 31.5 and is rounded to 31.
\<close>

definition opt28 :: RouteOption where
  "opt28 = \<lparr> id_str = ''r1'', distance_km = f64 (28 / 1000), duration_min = f64 (101 / 10),
              fuel_liters = f64 (2 / 1000), fuel_cost_cop = 31, score = f64 (603 / 60),
              geojson = [(''type'', JStr ''LineString'')] \<rparr>"

definition opt100 :: RouteOption where
  "opt100 = \<lparr> id_str = ''r1'', distance_km = f64 (1 / 10), duration_min = f64 (101 / 10),
               fuel_liters = f64 (7 / 1000), fuel_cost_cop = 112, score = f64 (603 / 60),
               geojson = [(''type'', JStr ''LineString'')] \<rparr>"

text \<open>Two bodies without candidate routes: an empty list, and no \<open>routes\<close> key.\<close>

definition data_empty :: "(string \<times> json) list" where
  "data_empty = [(''code'', JStr ''NoRoute''), (''routes'', JArr [])]"

definition data_nokey :: "(string \<times> json) list" where
  "data_nokey = [(''code'', JStr ''NoRoute'')]"

subsection \<open>What rounding to \<open>n\<close> decimal places means\<close>

text \<open>
  \<open>y\<close> is \<open>x\<close> rounded to \<open>n\<close> decimal places: \<open>y\<close> is a multiple of \<open>10 ^ - n\<close> and no
  multiple is nearer to \<open>x\<close>. This is the specification's wording; \<open>round_decimal\<close> above is
  the code.
\<close>

definition rounded_to :: "nat \<Rightarrow> real \<Rightarrow> real \<Rightarrow> bool" where
  "rounded_to n x y \<longleftrightarrow> of_int \<lfloor>y * 10 ^ n\<rfloor> = y * 10 ^ n \<and> \<bar>y - x\<bar> * (2 * 10 ^ n) \<le> 1"

text \<open>
  A float field \<open>y\<close> is the float \<open>x\<close> rounded to \<open>n\<close> decimal places: \<open>x\<close> is finite, and \<open>y\<close>
  is the float nearest to a decimal \<open>q\<close> that is the exact value of \<open>x\<close> rounded to \<open>n\<close>
  places.
\<close>

definition float_rounded :: "nat \<Rightarrow> float64 \<Rightarrow> real \<Rightarrow> bool" where
  "float_rounded n x y \<longleftrightarrow> (\<exists>a q. x = Finite a \<and> rounded_to n a q \<and> fl64 q = Finite y)"

section \<open>Lemmas about binary64 rounding\<close>

text \<open>Evaluation of \<open>fl64\<close> on a numeral, by the simplifier.\<close>

lemma search_exp_numeral:
  "search_exp a lo (numeral i) =
     (if pow2 (lo + 2 ^ pred_numeral i) \<le> a
      then search_exp a (lo + 2 ^ pred_numeral i) (pred_numeral i)
      else search_exp a lo (pred_numeral i))"
  by (simp add: numeral_eq_Suc)

lemma search_exp_1:
  "search_exp a lo 1 = (if pow2 (lo + 1) \<le> a then lo + 1 else lo)"
  by simp

lemmas f64_eval = fl64_def in_range_def round_to_unit_def expo_def search_exp_numeral search_exp_1
  pow2_def round_half_even_def Let_def

text \<open>Powers of two and the exponent.\<close>

lemma pow2_powi: "pow2 e = 2 powi e"
  by (simp add: pow2_def power_int_def inverse_eq_divide power_one_over)

lemma pow2_pos [simp]: "0 < pow2 e"
  by (simp add: pow2_def)

lemma pow2_add: "pow2 (a + b) = pow2 a * pow2 b"
  by (simp add: pow2_powi power_int_add)

lemma pow2_Suc: "pow2 (e + 1) = 2 * pow2 e"
  by (simp add: pow2_powi power_int_add_1)

lemma pow2_mono: "a \<le> b \<Longrightarrow> pow2 a \<le> pow2 b"
  by (simp add: pow2_powi power_int_increasing)

lemma pow2_strict_mono: "a < b \<Longrightarrow> pow2 a < pow2 b"
  by (simp add: pow2_powi power_int_strict_increasing)

lemma pow2_less_iff [simp]: "pow2 a < pow2 b \<longleftrightarrow> a < b"
proof
  assume "pow2 a < pow2 b"
  show "a < b"
  proof (rule ccontr)
    assume "\<not> a < b"
    then have "pow2 b \<le> pow2 a" by (simp add: pow2_mono)
    with \<open>pow2 a < pow2 b\<close> show False by simp
  qed
qed (rule pow2_strict_mono)

lemma pow2_le_iff [simp]: "pow2 a \<le> pow2 b \<longleftrightarrow> a \<le> b"
proof
  assume "pow2 a \<le> pow2 b"
  show "a \<le> b"
  proof (rule ccontr)
    assume "\<not> a \<le> b"
    then have "pow2 b < pow2 a" by (simp add: pow2_strict_mono)
    with \<open>pow2 a \<le> pow2 b\<close> show False by simp
  qed
qed (rule pow2_mono)

lemma pow2_of_nat: "0 \<le> e \<Longrightarrow> pow2 e = of_int (2 ^ nat e)"
  by (simp add: pow2_def)

lemma search_exp_bounds:
  "pow2 lo \<le> a \<Longrightarrow> a < pow2 (lo + 2 ^ n) \<Longrightarrow>
     pow2 (search_exp a lo n) \<le> a \<and> a < pow2 (search_exp a lo n + 1)"
proof (induction n arbitrary: lo)
  case 0
  then show ?case by simp
next
  case (Suc n)
  show ?case
  proof (cases "pow2 (lo + 2 ^ n) \<le> a")
    case True
    have "lo + 2 ^ n + 2 ^ n = lo + 2 ^ Suc n" by simp
    with Suc.prems(2) have "a < pow2 (lo + 2 ^ n + 2 ^ n)" by (simp only:)
    from Suc.IH [OF True this] True show ?thesis by simp
  next
    case False
    then have "a < pow2 (lo + 2 ^ n)" by simp
    from Suc.IH [OF Suc.prems(1) this] False show ?thesis by simp
  qed
qed

lemma pow2_unique:
  assumes "pow2 e \<le> a" "a < pow2 (e + 1)" "pow2 e' \<le> a" "a < pow2 (e' + 1)"
  shows "e = e'"
proof -
  from assms(1,4) have "pow2 e < pow2 (e' + 1)" by linarith
  then have "e \<le> e'" by simp
  moreover from assms(3,2) have "pow2 e' < pow2 (e + 1)" by linarith
  then have "e' \<le> e" by simp
  ultimately show ?thesis by simp
qed

lemma expo_bounds:
  assumes "pow2 (- 1022) \<le> \<bar>x\<bar>" "\<bar>x\<bar> < pow2 1026"
  shows "pow2 (expo x) \<le> \<bar>x\<bar> \<and> \<bar>x\<bar> < pow2 (expo x + 1)"
proof -
  have "(- 1022 :: int) + 2 ^ 11 = 1026" by simp
  with assms(2) have "\<bar>x\<bar> < pow2 (- 1022 + 2 ^ 11)" by simp
  from search_exp_bounds [OF assms(1) this] show ?thesis by (simp add: expo_def)
qed

lemma expo_unique:
  assumes "pow2 e \<le> \<bar>x\<bar>" "\<bar>x\<bar> < pow2 (e + 1)" "- 1022 \<le> e" "e < 1026"
  shows "expo x = e"
proof -
  from assms(3) have "pow2 (- 1022) \<le> pow2 e" by simp
  with assms(1) have lo: "pow2 (- 1022) \<le> \<bar>x\<bar>" by linarith
  from assms(4) have "pow2 (e + 1) \<le> pow2 1026" by simp
  with assms(2) have hi: "\<bar>x\<bar> < pow2 1026" by linarith
  from expo_bounds [OF lo hi] assms(1,2) show ?thesis
    by (meson pow2_unique)
qed

lemma expo_double:
  assumes "pow2 (- 1022) \<le> \<bar>x\<bar>" "\<bar>x\<bar> < pow2 1025"
  shows "expo (2 * x) = expo x + 1"
proof -
  have "pow2 1025 < pow2 1026" by simp
  with assms(2) have hi: "\<bar>x\<bar> < pow2 1026" by linarith
  note b = expo_bounds [OF assms(1) hi]
  have ab: "\<bar>2 * x\<bar> = 2 * \<bar>x\<bar>" by (simp add: abs_mult)
  from b have 1: "pow2 (expo x + 1) \<le> \<bar>2 * x\<bar>" unfolding ab pow2_Suc by linarith
  from b have 2: "\<bar>2 * x\<bar> < pow2 (expo x + 1 + 1)" unfolding ab pow2_Suc by linarith
  from b assms(1) have "pow2 (- 1022) < pow2 (expo x + 1)" by linarith
  then have lo: "- 1022 \<le> expo x + 1" by simp
  from b assms(2) have "pow2 (expo x) < pow2 1025" by linarith
  then have "expo x + 1 < 1026" by simp
  from expo_unique [OF 1 2 lo this] show ?thesis .
qed


lemma rhe_cases:
  "round_half_even x = \<lfloor>x\<rfloor> \<or> round_half_even x = \<lfloor>x\<rfloor> + 1 \<and> of_int \<lfloor>x\<rfloor> < x"
  by (auto simp: round_half_even_def Let_def)

lemma rhe_of_int [simp]: "round_half_even (of_int i) = i"
  by (simp add: round_half_even_def)

lemma rhe_lower: "of_int i \<le> x \<Longrightarrow> i \<le> round_half_even x"
proof -
  assume "of_int i \<le> x"
  then have "i \<le> \<lfloor>x\<rfloor>" by (simp add: le_floor_iff)
  with rhe_cases [of x] show ?thesis by auto
qed

lemma rhe_upper: "x \<le> of_int i \<Longrightarrow> round_half_even x \<le> i"
proof -
  assume le: "x \<le> of_int i"
  then have f: "\<lfloor>x\<rfloor> \<le> i" by (simp add: floor_le_iff)
  show ?thesis
  proof (cases "round_half_even x = \<lfloor>x\<rfloor>")
    case True
    with f show ?thesis by simp
  next
    case False
    with rhe_cases [of x] have r: "round_half_even x = \<lfloor>x\<rfloor> + 1" and lt: "of_int \<lfloor>x\<rfloor> < x"
      by auto
    from lt le have "of_int \<lfloor>x\<rfloor> < (of_int i :: real)" by linarith
    then have "\<lfloor>x\<rfloor> < i" by simp
    with r show ?thesis by simp
  qed
qed

lemma round_to_unit_double: "round_to_unit (2 * u) (2 * x) = 2 * round_to_unit u x"
  by (simp add: round_to_unit_def)

lemma fl64_FiniteD:
  "fl64 x = Finite y \<Longrightarrow> y = round_to_unit (pow2 (expo x - 52)) x \<and> \<bar>y\<bar> < pow2 1024"
  by (auto simp: fl64_def in_range_def split: if_splits)

lemma fl64_double:
  assumes "pow2 (- 1022) \<le> \<bar>x\<bar>" "\<bar>x\<bar> < pow2 1025" "fl64 x = Finite y" "\<bar>2 * y\<bar> < pow2 1024"
  shows "fl64 (2 * x) = Finite (2 * y)"
proof -
  from fl64_FiniteD [OF assms(3)] have y: "y = round_to_unit (pow2 (expo x - 52)) x" by simp
  have "expo (2 * x) - 52 = (expo x - 52) + 1"
    using expo_double [OF assms(1,2)] by simp
  then have "pow2 (expo (2 * x) - 52) = 2 * pow2 (expo x - 52)"
    by (simp only: pow2_Suc)
  then have "round_to_unit (pow2 (expo (2 * x) - 52)) (2 * x) = 2 * y"
    by (simp only: round_to_unit_double y)
  with assms(4) show ?thesis
    by (simp add: fl64_def in_range_def)
qed

lemma fl64_bounds:
  assumes "0 < x" "pow2 a \<le> x" "x \<le> pow2 b" "- 1022 \<le> a" "b \<le> 1023"
  shows "\<exists>y. fl64 x = Finite y \<and> pow2 a \<le> y \<and> y \<le> pow2 b"
proof -
  define e where "e = expo x"
  define u where "u = pow2 (e - 52)"
  define m where "m = round_half_even (x / u)"
  have u: "0 < u" by (simp add: u_def)
  from assms(1) have ax: "\<bar>x\<bar> = x" by simp
  from assms(4) have "pow2 (- 1022) \<le> pow2 a" by simp
  with assms(2) have lo: "pow2 (- 1022) \<le> \<bar>x\<bar>" unfolding ax by linarith
  from assms(5) have "pow2 b < pow2 1026" by simp
  with assms(3) have hi: "\<bar>x\<bar> < pow2 1026" unfolding ax by linarith
  from expo_bounds [OF lo hi] have ex: "pow2 e \<le> x" "x < pow2 (e + 1)"
    unfolding ax e_def by simp_all
  from assms(2) ex(2) have "pow2 a < pow2 (e + 1)" by linarith
  then have ae: "a \<le> e" by simp
  from ex(1) assms(3) have "pow2 e \<le> pow2 b" by linarith
  then have eb: "e \<le> b" by simp
  have pe: "pow2 e = pow2 52 * u"
    unfolding u_def pow2_add [symmetric] by simp
  have pb: "pow2 b = pow2 (b - e + 52) * u"
    unfolding u_def pow2_add [symmetric] by simp
  have "of_int (2 ^ 52) \<le> x / u"
    using ex(1) u pe by (simp add: pos_le_divide_eq pow2_def)
  then have mlo: "2 ^ 52 \<le> m" unfolding m_def by (rule rhe_lower)
  from eb have nn: "0 \<le> b - e + 52" by simp
  have "x / u \<le> of_int (2 ^ nat (b - e + 52))"
    using assms(3) u pb pow2_of_nat [OF nn] by (simp add: pos_divide_le_eq)
  then have mhi: "m \<le> 2 ^ nat (b - e + 52)" unfolding m_def by (rule rhe_upper)
  define y where "y = of_int m * u"
  from mlo have "of_int (2 ^ 52) * u \<le> y"
    unfolding y_def using u by (simp add: mult_right_mono del: of_int_power of_int_numeral)
  with pe have "pow2 e \<le> y" by (simp add: pow2_def)
  with ae have ylo: "pow2 a \<le> y"
    by (meson order_trans pow2_le_iff)
  from mhi have "y \<le> of_int (2 ^ nat (b - e + 52)) * u"
    unfolding y_def using u by (simp add: mult_right_mono del: of_int_power of_int_numeral)
  with pb pow2_of_nat [OF nn] have yhi: "y \<le> pow2 b" by simp
  have "0 < pow2 a" by simp
  with ylo have ypos: "0 < y" by linarith
  from assms(5) have "pow2 b < pow2 1024" by simp
  with yhi ypos have "\<bar>y\<bar> < pow2 1024" by linarith
  then have "fl64 x = Finite y"
    by (simp add: fl64_def in_range_def round_to_unit_def y_def m_def u_def e_def)
  with ylo yhi show ?thesis by blast
qed


lemma fl64_idem:
  assumes "0 < x" "pow2 (- 1022) \<le> x" "x < pow2 1024" "fl64 x = Finite y"
  shows "fl64 y = Finite y"
proof -
  define e where "e = expo x"
  define u where "u = pow2 (e - 52)"
  define m where "m = round_half_even (x / u)"
  have u: "0 < u" by (simp add: u_def)
  from assms(1) have ax: "\<bar>x\<bar> = x" by simp
  from fl64_FiniteD [OF assms(4)] have
    y0: "y = round_to_unit (pow2 (expo x - 52)) x" and yr: "\<bar>y\<bar> < pow2 1024"
    by blast+
  from y0 have y: "y = of_int m * u"
    by (simp add: round_to_unit_def m_def u_def e_def)
  have "pow2 1024 < pow2 1026" by simp
  with assms(3) have hi: "\<bar>x\<bar> < pow2 1026" unfolding ax by linarith
  from assms(2) have lo: "pow2 (- 1022) \<le> \<bar>x\<bar>" unfolding ax .
  from expo_bounds [OF lo hi] have ex: "pow2 e \<le> x" "x < pow2 (e + 1)"
    unfolding ax e_def by simp_all
  from assms(2) ex(2) have "pow2 (- 1022) < pow2 (e + 1)" by linarith
  then have elo: "- 1022 \<le> e" by simp
  from ex(1) assms(3) have "pow2 e < pow2 1024" by linarith
  then have ehi: "e < 1024" by simp
  have pe: "pow2 e = pow2 52 * u"
    unfolding u_def pow2_add [symmetric] by simp
  have p52: "pow2 52 = of_int (2 ^ 52)" by (simp add: pow2_def)
  have p53: "pow2 53 = of_int (2 ^ 53)" by (simp add: pow2_def)
  have "pow2 (e + 1) = pow2 (53 + (e - 52))" by (simp add: add.commute)
  then have pe1: "pow2 (e + 1) = pow2 53 * u"
    unfolding u_def by (simp only: pow2_add)
  have "of_int (2 ^ 52) \<le> x / u"
    using ex(1) u pe p52 by (simp add: pos_le_divide_eq)
  then have mlo: "2 ^ 52 \<le> m" unfolding m_def by (rule rhe_lower)
  have "x / u \<le> of_int (2 ^ 53)"
    using ex(2) u pe1 p53 by (simp add: pos_divide_le_eq)
  then have mhi: "m \<le> 2 ^ 53" unfolding m_def by (rule rhe_upper)
  from mlo have "of_int (2 ^ 52) * u \<le> of_int m * u"
    using u by (simp add: mult_right_mono del: of_int_power of_int_numeral)
  then have ylo: "pow2 e \<le> y" unfolding y pe p52 .
  have "0 < pow2 e" by simp
  with ylo have ypos: "0 < y" by linarith
  then have ay: "\<bar>y\<bar> = y" by simp
  have yu: "y / u = of_int m" using u by (simp add: y)
  show ?thesis
  proof (cases "m < 2 ^ 53")
    case True
    then have "of_int m * u < of_int (2 ^ 53) * u"
      using u by (simp add: mult_strict_right_mono del: of_int_power of_int_numeral)
    then have yhi: "y < pow2 (e + 1)" unfolding y pe1 p53 .
    from ehi have "e < 1026" by simp
    from expo_unique [of e y, unfolded ay, OF ylo yhi elo this] have "expo y = e" .
    then have "round_to_unit (pow2 (expo y - 52)) y = y"
      by (simp add: round_to_unit_def u_def [symmetric] yu) (simp add: y)
    with yr show ?thesis by (simp add: fl64_def in_range_def)
  next
    case False
    with mhi have m: "m = 2 ^ 53" by simp
    then have ye: "y = pow2 (e + 1)" unfolding y pe1 p53 by simp
    have 1: "pow2 (e + 1) \<le> y" by (simp add: ye)
    have 2: "y < pow2 (e + 1 + 1)" by (simp add: ye)
    from elo have 3: "- 1022 \<le> e + 1" by simp
    from ehi have 4: "e + 1 < 1026" by simp
    from expo_unique [of "e + 1" y, unfolded ay, OF 1 2 3 4] have ey: "expo y = e + 1" .
    have "e + 1 - 52 = (e - 52) + 1" by simp
    then have u': "pow2 (expo y - 52) = 2 * u"
      unfolding ey u_def by (simp only: pow2_Suc)
    have "y / (2 * u) = of_int (2 ^ 52)"
      using u by (simp add: y m)
    then have "round_to_unit (2 * u) y = of_int (2 ^ 52) * (2 * u)"
      unfolding round_to_unit_def by (simp only: rhe_of_int)
    also have "\<dots> = y" by (simp add: y m)
    finally have "round_to_unit (pow2 (expo y - 52)) y = y" unfolding u' .
    with yr show ?thesis by (simp add: fl64_def in_range_def)
  qed
qed

text \<open>Rounding keeps the sign.\<close>

lemma fl64_nonneg: "0 \<le> x \<Longrightarrow> fle (Finite 0) (fl64 x)"
proof -
  assume x: "0 \<le> x"
  define u where "u = pow2 (expo x - 52)"
  have u: "0 < u" by (simp add: u_def)
  with x have "of_int 0 \<le> x / u" by simp
  then have "0 \<le> round_half_even (x / u)" by (rule rhe_lower)
  with u have y: "0 \<le> round_to_unit u x" by (simp add: round_to_unit_def)
  show ?thesis
  proof (cases "0 < x")
    case True
    with y show ?thesis by (simp add: fl64_def in_range_def u_def)
  next
    case False
    with x have "x = 0" by simp
    then show ?thesis
      by (simp add: fl64_def in_range_def round_to_unit_def round_half_even_def not_le)
  qed
qed

lemma fdiv_nonneg: "fle (Finite 0) v \<Longrightarrow> fle (Finite 0) (fdiv v 100)"
  by (cases v) (simp_all add: fl64_nonneg)

text \<open>The rounding of \<open>round\<close> is a rounding to the nearest multiple.\<close>

lemma round_half_even_near: "\<bar>of_int (round_half_even x) - x\<bar> \<le> 1 / 2"
proof -
  define f where "f = \<lfloor>x\<rfloor>"
  define r where "r = x - of_int f"
  have r: "0 \<le> r" "r < 1" unfolding r_def f_def by linarith+
  have rhe: "round_half_even x =
               (if r < 1 / 2 then f else if 1 / 2 < r then f + 1 else if even f then f else f + 1)"
    by (simp add: round_half_even_def Let_def f_def r_def)
  have "\<bar>of_int (round_half_even x) - (of_int f + r)\<bar> \<le> 1 / 2"
    unfolding rhe using r by (auto simp: abs_if)
  then show ?thesis by (simp add: r_def)
qed

lemma round_decimal_rounded_to: "rounded_to n x (round_decimal x n)"
proof -
  let ?p = "(10::real) ^ n"
  have p: "0 < ?p" by simp
  have grid: "round_decimal x n * ?p = of_int (round_half_even (x * ?p))"
    by (simp add: round_decimal_def)
  have "\<bar>round_decimal x n - x\<bar> * ?p = \<bar>(round_decimal x n - x) * ?p\<bar>"
    using p by (simp add: abs_mult)
  also have "\<dots> = \<bar>round_decimal x n * ?p - x * ?p\<bar>"
    by (simp only: left_diff_distrib)
  also have "\<dots> = \<bar>of_int (round_half_even (x * ?p)) - x * ?p\<bar>"
    by (simp only: grid)
  also have "\<dots> \<le> 1 / 2" by (rule round_half_even_near)
  finally have "\<bar>round_decimal x n - x\<bar> * ?p \<le> 1 / 2" .
  then have near: "\<bar>round_decimal x n - x\<bar> * (2 * ?p) \<le> 1" by simp
  show ?thesis
    unfolding rounded_to_def using near by (simp add: grid)
qed

lemma py_round_float_rounded: "py_round x n = Finite y \<Longrightarrow> float_rounded n x y"
proof (cases x)
  case (Finite a)
  assume "py_round x n = Finite y"
  with Finite have "fl64 (round_decimal a n) = Finite y" by simp
  with Finite round_decimal_rounded_to [of n a] show ?thesis
    unfolding float_rounded_def by blast
qed simp_all

lemma json_float_Inr: "json_float v = Inr y \<Longrightarrow> v = Finite y"
  by (cases v) simp_all

section \<open>Lemmas about the loop and the handler\<close>

text \<open>
  The loop appends one option per item, in order, numbering from its start index; it fails
  as soon as one item fails.
\<close>

lemma build_loop_result:
  "build_loop req idx items out = Inr res \<Longrightarrow>
     \<exists>new. res = out @ new \<and> length new = length items \<and>
           (\<forall>i<length items. build_option req (idx + i) (items ! i) = Inr (new ! i))"
proof (induction items arbitrary: idx out)
  case Nil
  then show ?case by simp
next
  case (Cons rt rts)
  from Cons.prems obtain opt where
    opt: "build_option req idx rt = Inr opt" and
    rest: "build_loop req (Suc idx) rts (out @ [opt]) = Inr res"
    by (auto split: sum.splits)
  from Cons.IH [OF rest] obtain new where
    new: "res = (out @ [opt]) @ new" "length new = length rts"
         "\<forall>i<length rts. build_option req (Suc idx + i) (rts ! i) = Inr (new ! i)"
    by blast
  have "\<forall>i<length (rt # rts). build_option req (idx + i) ((rt # rts) ! i) = Inr ((opt # new) ! i)"
  proof (intro allI impI)
    fix i assume "i < length (rt # rts)"
    then show "build_option req (idx + i) ((rt # rts) ! i) = Inr ((opt # new) ! i)"
      using opt new(3) by (cases i) auto
  qed
  with new(1,2) show ?case
    by (intro exI [of _ "opt # new"]) simp
qed

lemma build_option_JStr: "build_option req idx (JStr s) = Inl (TypeError ''subscript'')"
  by (simp add: build_option_def)

lemma build_loop_JStr:
  "items \<noteq> [] \<Longrightarrow> build_loop req idx (map (\<lambda>c. JStr [c]) items) out = Inl (TypeError ''subscript'')"
  by (cases items) (simp_all add: build_option_JStr)

lemma rank_routes_success:
  assumes ok: "rank_routes req data = Inr resp" and k: "1 \<le> k req"
  shows "\<exists>rs out. dict_get data ''routes'' (JArr []) = Inr (JArr rs) \<and> rs \<noteq> [] \<and>
           build_loop req 1 (take (nat (k req)) rs) [] = Inr out \<and>
           resp = \<lparr> resp_preference = preference req, requested = k req,
                    returned = int (length out), routes = sort_key score out \<rparr>"
proof -
  from ok obtain v where v: "dict_get data ''routes'' (JArr []) = Inr v"
    by (auto simp: rank_routes_def split: sum.splits)
  from ok v have tr: "truthy v"
    by (auto simp: rank_routes_def split: if_splits)
  from ok v tr obtain items where items: "sliced_items v (k req) = Inr items"
    by (auto simp: rank_routes_def split: sum.splits)
  from ok v tr items obtain out where out: "build_loop req 1 items [] = Inr out"
    by (auto simp: rank_routes_def split: sum.splits)
  from ok v tr items out have resp:
    "resp = \<lparr> resp_preference = preference req, requested = k req,
              returned = int (length out), routes = sort_key score out \<rparr>"
    by (auto simp: rank_routes_def split: if_splits)
  have "\<exists>rs. v = JArr rs"
  proof (cases v)
    case (JStr s)
    with tr have "s \<noteq> []" by simp
    with k have "slice_to s (k req) \<noteq> []" by (simp add: slice_to_def)
    with items JStr out show ?thesis
      by (auto simp: build_loop_JStr)
  qed (use items in auto)
  then obtain rs where rs: "v = JArr rs" ..
  with tr have "rs \<noteq> []" by simp
  moreover from items rs k have "items = take (nat (k req)) rs"
    by (simp add: slice_to_def)
  ultimately show ?thesis using v rs out resp by blast
qed

lemma parse_request_k:
  "parse_request cfg b = Inr req \<Longrightarrow> 1 \<le> k req \<and> k req \<le> 5"
  by (auto simp: parse_request_def validation_errors_def check_k_def
           split: list.splits option.splits if_splits)

lemma route_options_success:
  "route_options cfg lib req calls = (Inr resp, calls') \<Longrightarrow>
     \<exists>data. osrm_get_routes cfg lib (origin req) (destination req) calls = (Inr data, calls') \<and>
            rank_routes req data = Inr resp"
  by (auto simp: route_options_def split: prod.splits sum.splits)

lemma post_route_options_success:
  "post_route_options cfg lib body calls = (Inr resp, calls') \<Longrightarrow>
     \<exists>req. parse_request cfg body = Inr req \<and> route_options cfg lib req calls = (Inr resp, calls')"
  by (auto simp: post_route_options_def split: sum.splits)


lemma build_option_fields:
  assumes "build_option req idx rt = Inr opt"
  shows "\<exists>dj tj d t price.
           getitem rt ''distance'' = Inr dj \<and> as_float dj = Inr d \<and>
           getitem rt ''duration'' = Inr tj \<and> as_float tj = Inr t \<and>
           float_of_int (fuel_price_per_liter req) = Inr price \<and>
           id_str opt = ''r'' @ str_nat idx \<and>
           py_round (fdiv d 1000) 3 = Finite (distance_km opt) \<and>
           py_round (fdiv t 60) 1 = Finite (duration_min opt) \<and>
           py_round (estimate_fuel (fdiv d 1000) (fl64 (fuel_l_per_100km (vehicle req)))) 3
             = Finite (fuel_liters opt) \<and>
           py_round (fmul (estimate_fuel (fdiv d 1000) (fl64 (fuel_l_per_100km (vehicle req))))
                      price) 0
             = Finite (fuel_cost_cop opt) \<and>
           score_route (preference req) (fdiv d 1000) (fdiv t 60)
               (estimate_fuel (fdiv d 1000) (fl64 (fuel_l_per_100km (vehicle req))))
               (fmul (estimate_fuel (fdiv d 1000) (fl64 (fuel_l_per_100km (vehicle req)))) price)
             = Finite (score opt)"
proof -
  from assms obtain dj where dj: "getitem rt ''distance'' = Inr dj"
    by (cases "getitem rt ''distance''") (simp_all add: build_option_def)
  from assms dj obtain d where d: "as_float dj = Inr d"
    by (cases "as_float dj") (simp_all add: build_option_def)
  from assms dj d obtain tj where tj: "getitem rt ''duration'' = Inr tj"
    by (cases "getitem rt ''duration''") (simp_all add: build_option_def)
  from assms dj d tj obtain t where t: "as_float tj = Inr t"
    by (cases "as_float tj") (simp_all add: build_option_def)
  from assms dj d tj t obtain price where p: "float_of_int (fuel_price_per_liter req) = Inr price"
    by (cases "float_of_int (fuel_price_per_liter req)") (simp_all add: build_option_def)
  define dist_km where "dist_km = fdiv d 1000"
  define dur_min where "dur_min = fdiv t 60"
  define fuel_l where "fuel_l = estimate_fuel dist_km (fl64 (fuel_l_per_100km (vehicle req)))"
  define fuel_cost where "fuel_cost = fmul fuel_l price"
  define sc where "sc = score_route (preference req) dist_km dur_min fuel_l fuel_cost"
  have b: "build_option req idx rt =
     (case getitem rt ''geometry'' of Inl e \<Rightarrow> Inl e | Inr g \<Rightarrow>
       (case g of
          JObj kvs \<Rightarrow>
            (case json_float (py_round dist_km 3) of Inl e \<Rightarrow> Inl e | Inr f1 \<Rightarrow>
            (case json_float (py_round dur_min 1) of Inl e \<Rightarrow> Inl e | Inr f2 \<Rightarrow>
            (case json_float (py_round fuel_l 3) of Inl e \<Rightarrow> Inl e | Inr f3 \<Rightarrow>
            (case json_float (py_round fuel_cost 0) of Inl e \<Rightarrow> Inl e | Inr f4 \<Rightarrow>
            (case json_float sc of Inl e \<Rightarrow> Inl e | Inr f5 \<Rightarrow>
               Inr \<lparr> id_str = ''r'' @ str_nat idx, distance_km = f1, duration_min = f2,
                     fuel_liters = f3, fuel_cost_cop = f4, score = f5, geojson = kvs \<rparr>)))))
        | _ \<Rightarrow> Inl (ValidationError ''geojson'')))"
    unfolding dist_km_def dur_min_def fuel_l_def fuel_cost_def sc_def
    by (simp add: build_option_def dj d tj t p Let_def)
  from assms b obtain g where g: "getitem rt ''geometry'' = Inr g"
    by (cases "getitem rt ''geometry''") simp_all
  from assms b g obtain kvs where kvs: "g = JObj kvs"
    by (cases g) simp_all
  from assms b g kvs obtain f1 where f1: "json_float (py_round dist_km 3) = Inr f1"
    by (cases "json_float (py_round dist_km 3)") simp_all
  from assms b g kvs f1 obtain f2 where f2: "json_float (py_round dur_min 1) = Inr f2"
    by (cases "json_float (py_round dur_min 1)") simp_all
  from assms b g kvs f1 f2 obtain f3 where f3: "json_float (py_round fuel_l 3) = Inr f3"
    by (cases "json_float (py_round fuel_l 3)") simp_all
  from assms b g kvs f1 f2 f3 obtain f4 where f4: "json_float (py_round fuel_cost 0) = Inr f4"
    by (cases "json_float (py_round fuel_cost 0)") simp_all
  from assms b g kvs f1 f2 f3 f4 obtain f5 where f5: "json_float sc = Inr f5"
    by (cases "json_float sc") simp_all
  from assms b g kvs f1 f2 f3 f4 f5 have opt:
    "opt = \<lparr> id_str = ''r'' @ str_nat idx, distance_km = f1, duration_min = f2,
             fuel_liters = f3, fuel_cost_cop = f4, score = f5, geojson = kvs \<rparr>"
    by simp
  from json_float_Inr [OF f1] json_float_Inr [OF f2] json_float_Inr [OF f3]
    json_float_Inr [OF f4] json_float_Inr [OF f5]
  have "py_round dist_km 3 = Finite (distance_km opt)"
       "py_round dur_min 1 = Finite (duration_min opt)"
       "py_round fuel_l 3 = Finite (fuel_liters opt)"
       "py_round fuel_cost 0 = Finite (fuel_cost_cop opt)"
       "sc = Finite (score opt)"
       "id_str opt = ''r'' @ str_nat idx"
    by (simp_all add: opt)
  then show ?thesis
    unfolding dist_km_def dur_min_def fuel_l_def fuel_cost_def sc_def
    using dj d tj t p by blast
qed

lemma build_option_id: "build_option req idx rt = Inr opt \<Longrightarrow> id_str opt = ''r'' @ str_nat idx"
  using build_option_fields by blast

lemma handler_success:
  assumes "post_route_options cfg lib body calls = (Inr resp, calls')"
  shows "\<exists>req data rs out.
           parse_request cfg body = Inr req \<and>
           osrm_get_routes cfg lib (origin req) (destination req) calls = (Inr data, calls') \<and>
           dict_get data ''routes'' (JArr []) = Inr (JArr rs) \<and> rs \<noteq> [] \<and> 1 \<le> k req \<and>
           length out = min (nat (k req)) (length rs) \<and>
           (\<forall>i<length out. build_option req (Suc i) (rs ! i) = Inr (out ! i)) \<and>
           resp = \<lparr> resp_preference = preference req, requested = k req,
                    returned = int (length out), routes = sort_key score out \<rparr>"
proof -
  from post_route_options_success [OF assms] obtain req where
    req: "parse_request cfg body = Inr req" and
    ro: "route_options cfg lib req calls = (Inr resp, calls')" by blast
  from route_options_success [OF ro] obtain data where
    data: "osrm_get_routes cfg lib (origin req) (destination req) calls = (Inr data, calls')" and
    rr: "rank_routes req data = Inr resp" by blast
  from parse_request_k [OF req] have k: "1 \<le> k req" by simp
  from rank_routes_success [OF rr k] obtain rs out where
    rs: "dict_get data ''routes'' (JArr []) = Inr (JArr rs)" "rs \<noteq> []" and
    loop: "build_loop req 1 (take (nat (k req)) rs) [] = Inr out" and
    resp: "resp = \<lparr> resp_preference = preference req, requested = k req,
                     returned = int (length out), routes = sort_key score out \<rparr>"
    by blast
  from build_loop_result [OF loop] have
    len: "length out = length (take (nat (k req)) rs)" and
    each: "\<forall>i<length (take (nat (k req)) rs).
             build_option req (1 + i) (take (nat (k req)) rs ! i) = Inr (out ! i)"
    by auto
  from len have len': "length out = min (nat (k req)) (length rs)" by (simp add: min.commute)
  have "\<forall>i<length out. build_option req (Suc i) (rs ! i) = Inr (out ! i)"
    using each len by auto
  with req data rs k len' resp show ?thesis by blast
qed

text \<open>A successful response is never empty: the request asks for at least one route.\<close>

lemma successful_response_nonempty:
  assumes "post_route_options cfg lib body calls = (Inr resp, calls')"
  shows "routes resp \<noteq> []"
proof -
  from handler_success [OF assms] obtain req data rs out where
    h: "parse_request cfg body = Inr req \<and>
        osrm_get_routes cfg lib (origin req) (destination req) calls = (Inr data, calls') \<and>
        dict_get data ''routes'' (JArr []) = Inr (JArr rs) \<and> rs \<noteq> [] \<and> 1 \<le> k req \<and>
        length out = min (nat (k req)) (length rs) \<and>
        (\<forall>i<length out. build_option req (Suc i) (rs ! i) = Inr (out ! i)) \<and>
        resp = \<lparr> resp_preference = preference req, requested = k req,
                 returned = int (length out), routes = sort_key score out \<rparr>"
    by (elim exE) (rule that)
  from h have rs: "rs \<noteq> []" and k: "1 \<le> k req"
    and len: "length out = min (nat (k req)) (length rs)"
    and r: "routes resp = sort_key score out"
    by simp_all
  from rs have "0 < length rs" by simp
  moreover from k have "0 < nat (k req)" by simp
  ultimately have "0 < length out" using len by simp
  with r have "length (routes resp) \<noteq> 0" by simp
  then show ?thesis by simp
qed

lemma rank_routes_no_routes:
  "dict_get data ''routes'' (JArr []) = Inr (JArr []) \<Longrightarrow>
   rank_routes req data = Inl (HTTPException 404 ''No se encontraron rutas'')"
  by (simp add: rank_routes_def)

text \<open>The scenario of \<open>data4\<close>, evaluated.\<close>

lemma parse_body0: "parse_request cfg0 body0 = Inr req0"
  by (simp add: parse_request_def validation_errors_def check_LatLng_def check_preference_def
      check_k_def check_fuel_price_def check_vehicle_def body0_def req0_def cfg0_def Preference_def)

lemma fetch_ok:
  "osrm_get_routes cfg0 requests_lib (origin req0) (destination req0) (net_of (ok j))
     = (Inr j, once (net_of (ok j)))"
  by (simp add: osrm_get_routes_def try_body_def requests_lib_def http_get_def
      http_raise_for_status_def http_json_def net_of_def ok_def answered_def once_def
      req0_def o0_def d0_def)

lemmas build_eval = build_option_def req0_def route1_def route_json_def float_of_int_def
  estimate_fuel_def score_route_def round_decimal_def f64_def f64_eval str_nat.simps digit_char_def

lemma build_route1: "build_option req0 (Suc 0) route1 = Inr opt1"
  by (simp add: build_eval opt1_def)

lemma build_route2: "build_option req0 (Suc (Suc 0)) (route_json 6000 720) = Inr opt2"
  by (simp add: build_eval opt2_def)

lemma build_route3: "build_option req0 (Suc (Suc (Suc 0))) (route_json 5400 601) = Inr opt3"
  by (simp add: build_eval opt3_def)

lemma build_route28: "build_option req0 (Suc 0) (route_json 28 603) = Inr opt28"
  by (simp add: build_eval opt28_def)

lemma build_route100: "build_option req0 (Suc 0) (route_json 100 603) = Inr opt100"
  by (simp add: build_eval opt100_def)

text \<open>On the exact quotients the three roundings would give 10, 0.008 and 32.\<close>

lemma round_decimal_exact_quotients:
  "round_decimal (603 / 60) 1 = 10"
  "round_decimal (100 / 1000 * (75 / 10) / 100) 3 = 8 / 1000"
  "round_decimal (28 / 1000 * (75 / 10) / 100 * 15000) 0 = 32"
  "f64 (101 / 10) \<noteq> 10" "f64 (7 / 1000) \<noteq> 8 / 1000"
  by (simp_all add: round_decimal_def round_half_even_def f64_def f64_eval)

lemma scores4: "score opt1 = f64 (601 / 60)" "score opt2 = 12" "score opt3 = f64 (601 / 60)"
  by (simp_all add: opt1_def opt2_def opt3_def)

lemma f64_601: "f64 (601 / 60) < 12"
  by (simp add: f64_def f64_eval)

lemma sort4: "sort_key score [opt1, opt2, opt3] = [opt1, opt3, opt2]"
  using f64_601 by (simp add: scores4)

lemma rank_data4: "rank_routes req0 data4 = Inr resp4"
proof -
  have k: "k req0 = 3" and p: "preference req0 = ''FASTEST''"
    by (simp_all add: req0_def)
  have "rank_routes req0 data4 =
          Inr \<lparr> resp_preference = ''FASTEST'', requested = 3, returned = 3,
                routes = sort_key score [opt1, opt2, opt3] \<rparr>"
    by (simp add: rank_routes_def data4_def slice_to_def k p Preference_def
        build_route1 build_route2 build_route3 del: sort_key_simps)
  then show ?thesis by (simp only: sort4 resp4_def)
qed

lemma post_data4:
  "post_route_options cfg0 requests_lib body0 (net_of (ok data4))
     = (Inr resp4, once (net_of (ok data4)))"
  by (simp add: post_route_options_def parse_body0 route_options_def fetch_ok rank_data4)

section \<open>Properties of the helpers\<close>

text \<open>
  C4. The score is the metric the preference selects: the duration for \<open>FASTEST\<close>, the
  distance for \<open>SHORT_DISTANCE\<close>, the fuel for \<open>LOW_FUEL\<close>, the cost for \<open>CHEAPEST\<close>, and
  the duration again for every string that is none of the four.
\<close>

theorem score_route_selects_metric:
  "score_route ''FASTEST'' d t f c = t \<and>
   score_route ''SHORT_DISTANCE'' d t f c = d \<and>
   score_route ''LOW_FUEL'' d t f c = f \<and>
   score_route ''CHEAPEST'' d t f c = c \<and>
   (p \<notin> set Preference \<longrightarrow> score_route p d t f c = t)"
  by (simp add: score_route_def Preference_def)

theorem score_route_selects_metric_witness:
  "''SCENIC'' \<notin> set Preference \<and>
   score_route ''SCENIC'' (Finite 5) (Finite 10) (Finite (3 / 8)) (Finite 5625) = Finite 10 \<and>
   score_route ''CHEAPEST'' (Finite 5) (Finite 10) (Finite (3 / 8)) (Finite 5625) = Finite 5625"
  using score_route_selects_metric
          [of "Finite 5" "Finite 10" "Finite (3 / 8)" "Finite 5625" "''SCENIC''"]
  by (simp add: Preference_def)

text \<open>
  C5. For a distance \<open>d \<ge> 0\<close> and a consumption rate \<open>r > 0\<close> the estimate is the float
  product of the two divided by the float 100, and it is not negative; where neither
  operation rounds, it is \<open>d * r / 100\<close>. The function is a total function of its two
  arguments: it reads and writes no state and has no error result.
\<close>

theorem estimate_fuel_formula:
  "0 \<le> d \<Longrightarrow> 0 < r \<Longrightarrow>
     estimate_fuel (Finite d) (Finite r) = fdiv (fmul (Finite d) (Finite r)) 100 \<and>
     fle (Finite 0) (estimate_fuel (Finite d) (Finite r)) \<and>
     (fl64 (d * r) = Finite (d * r) \<and> fl64 (d * r / 100) = Finite (d * r / 100) \<longrightarrow>
        estimate_fuel (Finite d) (Finite r) = Finite (d * r / 100))"
proof -
  assume d: "0 \<le> d" and r: "0 < r"
  then have "0 \<le> d * r" by simp
  then have "fle (Finite 0) (fl64 (d * r))" by (rule fl64_nonneg)
  then have "fle (Finite 0) (fdiv (fl64 (d * r)) 100)" by (rule fdiv_nonneg)
  then show ?thesis by (simp add: estimate_fuel_def)
qed

theorem estimate_fuel_formula_witness:
  "(0::real) \<le> 5 \<and> (0::real) < 15 / 2 \<and>
   fl64 (5 * (15 / 2)) = Finite (5 * (15 / 2)) \<and>
   fl64 (5 * (15 / 2) / 100) = Finite (5 * (15 / 2) / 100) \<and>
   estimate_fuel (Finite 5) (Finite (15 / 2)) = Finite (3 / 8) \<and>
   fle (Finite 0) (estimate_fuel (Finite 5) (Finite (15 / 2)))"
proof -
  have e1: "fl64 (5 * (15 / 2)) = Finite (5 * (15 / 2))" by (simp add: f64_eval)
  have e2: "fl64 (5 * (15 / 2) / 100) = Finite (5 * (15 / 2) / 100)" by (simp add: f64_eval)
  from estimate_fuel_formula [of 5 "15 / 2"] e1 e2
  have "estimate_fuel (Finite 5) (Finite (15 / 2)) = Finite (5 * (15 / 2) / 100)"
    and "fle (Finite 0) (estimate_fuel (Finite 5) (Finite (15 / 2)))"
    by simp_all
  with e1 e2 show ?thesis by simp
qed




section \<open>Properties of the fetcher\<close>




section \<open>Properties of the endpoint\<close>

text \<open>
  C8. A body whose origin or destination has a latitude outside \<open>[-90, 90]\<close> or a longitude
  outside \<open>[-180, 180]\<close>, or whose \<open>k\<close> is outside \<open>[1, 5]\<close>, is answered with the validation
  error (status 422), and the state of the network is unchanged: no request to the upstream
  was made.
\<close>

theorem invalid_request_rejected_before_fetch:
  assumes "lat (body_origin b) < - 90 \<or> 90 < lat (body_origin b) \<or>
           lng (body_origin b) < - 180 \<or> 180 < lng (body_origin b) \<or>
           lat (body_destination b) < - 90 \<or> 90 < lat (body_destination b) \<or>
           lng (body_destination b) < - 180 \<or> 180 < lng (body_destination b) \<or>
           (\<exists>n. body_k b = Some n \<and> (n < 1 \<or> 5 < n))"
  shows "post_route_options cfg lib b calls =
           (Inl (RequestValidationError (validation_errors b)), calls) \<and>
         validation_errors b \<noteq> [] \<and>
         status_code (RequestValidationError (validation_errors b)) = 422"
proof -
  from assms have ne: "validation_errors b \<noteq> []"
    by (auto simp: validation_errors_def check_LatLng_def check_k_def)
  then obtain e es where "validation_errors b = e # es"
    by (cases "validation_errors b") auto
  then show ?thesis
    by (simp add: post_route_options_def parse_request_def)
qed

theorem invalid_request_rejected_before_fetch_witness:
  "post_route_options cfg0 requests_lib (body0\<lparr>body_k := Some 6\<rparr>) (net_of (ok data4))
     = (Inl (RequestValidationError [''k'']), net_of (ok data4)) \<and>
   post_route_options cfg0 requests_lib (body0\<lparr>body_origin := \<lparr>lat = 91, lng = 0\<rparr>\<rparr>)
       (net_of (ok data4))
     = (Inl (RequestValidationError [''origin.lat'']), net_of (ok data4)) \<and>
   post_route_options cfg0 requests_lib
       (body0\<lparr>body_destination := \<lparr>lat = 0, lng = - 181\<rparr>\<rparr>) (net_of (ok data4))
     = (Inl (RequestValidationError [''destination.lng'']), net_of (ok data4)) \<and>
   sent (net_of (ok data4)) = []"
proof -
  have v1: "validation_errors (body0\<lparr>body_k := Some 6\<rparr>) = [''k'']"
    by (simp add: validation_errors_def check_LatLng_def check_preference_def check_k_def
        check_fuel_price_def check_vehicle_def body0_def Preference_def)
  have v2: "validation_errors (body0\<lparr>body_origin := \<lparr>lat = 91, lng = 0\<rparr>\<rparr>) = [''origin.lat'']"
    by (simp add: validation_errors_def check_LatLng_def check_preference_def check_k_def
        check_fuel_price_def check_vehicle_def body0_def Preference_def)
  have v3: "validation_errors (body0\<lparr>body_destination := \<lparr>lat = 0, lng = - 181\<rparr>\<rparr>)
              = [''destination.lng'']"
    by (simp add: validation_errors_def check_LatLng_def check_preference_def check_k_def
        check_fuel_price_def check_vehicle_def body0_def Preference_def)
  have h1: "\<exists>n. body_k (body0\<lparr>body_k := Some 6\<rparr>) = Some n \<and> (n < 1 \<or> 5 < n)"
    by simp
  have h2: "90 < lat (body_origin (body0\<lparr>body_origin := \<lparr>lat = 91, lng = 0\<rparr>\<rparr>))"
    by simp
  have h3: "lng (body_destination (body0\<lparr>body_destination := \<lparr>lat = 0, lng = - 181\<rparr>\<rparr>)) < - 180"
    by simp
  have c1: "post_route_options cfg0 requests_lib (body0\<lparr>body_k := Some 6\<rparr>) (net_of (ok data4))
              = (Inl (RequestValidationError [''k'']), net_of (ok data4))"
    using invalid_request_rejected_before_fetch
            [of "body0\<lparr>body_k := Some 6\<rparr>" cfg0 requests_lib "net_of (ok data4)"] h1
    by (simp only: v1) blast
  have c2: "post_route_options cfg0 requests_lib
              (body0\<lparr>body_origin := \<lparr>lat = 91, lng = 0\<rparr>\<rparr>) (net_of (ok data4))
              = (Inl (RequestValidationError [''origin.lat'']), net_of (ok data4))"
    using invalid_request_rejected_before_fetch
            [of "body0\<lparr>body_origin := \<lparr>lat = 91, lng = 0\<rparr>\<rparr>" cfg0 requests_lib
                "net_of (ok data4)"] h2
    by (simp only: v2) blast
  have c3: "post_route_options cfg0 requests_lib
              (body0\<lparr>body_destination := \<lparr>lat = 0, lng = - 181\<rparr>\<rparr>) (net_of (ok data4))
              = (Inl (RequestValidationError [''destination.lng'']), net_of (ok data4))"
    using invalid_request_rejected_before_fetch
            [of "body0\<lparr>body_destination := \<lparr>lat = 0, lng = - 181\<rparr>\<rparr>" cfg0 requests_lib
                "net_of (ok data4)"] h3
    by (simp only: v3) blast
  have s: "sent (net_of (ok data4)) = []" by (simp add: net_of_def)
  from c1 c2 c3 s show ?thesis by (intro conjI)
qed

text \<open>
  C1. In every successful response the options are built from the first \<open>min k n\<close> of the
  \<open>n\<close> upstream routes, taken in the upstream's order and numbered \<open>r1\<close>, \<open>r2\<close>, ... in that
  order; the response lists exactly these options, sorted by ascending score, and options
  with the same score are in the upstream's order.
\<close>

theorem route_options_truncates_then_sorts:
  assumes "post_route_options cfg lib body calls = (Inr resp, calls')"
  shows "\<exists>req data rs out.
           parse_request cfg body = Inr req \<and>
           osrm_get_routes cfg lib (origin req) (destination req) calls = (Inr data, calls') \<and>
           dict_get data ''routes'' (JArr []) = Inr (JArr rs) \<and>
           length out = min (nat (k req)) (length rs) \<and>
           (\<forall>i<length out. build_option req (Suc i) (rs ! i) = Inr (out ! i) \<and>
                            id_str (out ! i) = ''r'' @ str_nat (Suc i)) \<and>
           routes resp = sort_key score out \<and>
           mset (routes resp) = mset out \<and>
           sorted (map score (routes resp)) \<and>
           (\<forall>s. filter (\<lambda>opt. score opt = s) (routes resp) = filter (\<lambda>opt. score opt = s) out)"
proof -
  from handler_success [OF assms] obtain req data rs out where
    h: "parse_request cfg body = Inr req"
       "osrm_get_routes cfg lib (origin req) (destination req) calls = (Inr data, calls')"
       "dict_get data ''routes'' (JArr []) = Inr (JArr rs)"
       "length out = min (nat (k req)) (length rs)"
       "\<forall>i<length out. build_option req (Suc i) (rs ! i) = Inr (out ! i)" and
    resp: "resp = \<lparr> resp_preference = preference req, requested = k req,
                     returned = int (length out), routes = sort_key score out \<rparr>"
    by blast
  from resp have r: "routes resp = sort_key score out" by simp
  have ids: "\<forall>i<length out. build_option req (Suc i) (rs ! i) = Inr (out ! i) \<and>
                             id_str (out ! i) = ''r'' @ str_nat (Suc i)"
    using h(5) build_option_id by blast
  have m: "mset (routes resp) = mset out" using r by simp
  have s: "sorted (map score (routes resp))" using r by (simp add: sorted_sort_key)
  have st: "\<forall>s. filter (\<lambda>opt. score opt = s) (routes resp) = filter (\<lambda>opt. score opt = s) out"
    using r by (simp add: sort_key_stable)
  from h(1-4) ids r m s st show ?thesis by blast
qed

theorem route_options_truncates_then_sorts_witness:
  "post_route_options cfg0 requests_lib body0 (net_of (ok data4))
     = (Inr resp4, once (net_of (ok data4))) \<and>
   map id_str (routes resp4) = [''r1'', ''r3'', ''r2''] \<and>
   map score (routes resp4) = [f64 (601 / 60), f64 (601 / 60), 12] \<and>
   sorted (map score (routes resp4)) \<and>
   filter (\<lambda>opt. score opt = f64 (601 / 60)) (routes resp4) = [opt1, opt3]"
proof -
  from route_options_truncates_then_sorts [OF post_data4] obtain out where
    srt: "sorted (map score (routes resp4))" and
    stable: "\<forall>s. filter (\<lambda>opt. score opt = s) (routes resp4) = filter (\<lambda>opt. score opt = s) out"
    by blast
  have ids: "map id_str (routes resp4) = [''r1'', ''r3'', ''r2'']"
    by (simp add: resp4_def opt1_def opt2_def opt3_def)
  have scs: "map score (routes resp4) = [f64 (601 / 60), f64 (601 / 60), 12]"
    by (simp add: resp4_def scores4)
  have ties: "filter (\<lambda>opt. score opt = f64 (601 / 60)) (routes resp4) = [opt1, opt3]"
    using f64_601 by (simp add: resp4_def scores4)
  from post_data4 ids scs srt ties show ?thesis by simp
qed

text \<open>
  C2. In every successful response \<open>requested\<close> is the request's \<open>k\<close>, \<open>returned\<close> is the
  smaller of \<open>k\<close> and the number of upstream routes, and the list of routes has \<open>returned\<close>
  elements.
\<close>

theorem response_counts:
  assumes "post_route_options cfg lib body calls = (Inr resp, calls')"
  shows "\<exists>req data rs.
           parse_request cfg body = Inr req \<and>
           osrm_get_routes cfg lib (origin req) (destination req) calls = (Inr data, calls') \<and>
           dict_get data ''routes'' (JArr []) = Inr (JArr rs) \<and>
           requested resp = k req \<and>
           returned resp = min (k req) (int (length rs)) \<and>
           int (length (routes resp)) = returned resp"
proof -
  from handler_success [OF assms] obtain req data rs out where
    h: "parse_request cfg body = Inr req"
       "osrm_get_routes cfg lib (origin req) (destination req) calls = (Inr data, calls')"
       "dict_get data ''routes'' (JArr []) = Inr (JArr rs)" and
    k: "1 \<le> k req" and
    len: "length out = min (nat (k req)) (length rs)" and
    resp: "resp = \<lparr> resp_preference = preference req, requested = k req,
                     returned = int (length out), routes = sort_key score out \<rparr>"
    by blast
  from k len have "int (length out) = min (k req) (int (length rs))" by auto
  with resp have "requested resp = k req" "returned resp = min (k req) (int (length rs))"
    "int (length (routes resp)) = returned resp" by simp_all
  with h show ?thesis by blast
qed

theorem response_counts_witness:
  "post_route_options cfg0 requests_lib body0 (net_of (ok data4))
     = (Inr resp4, once (net_of (ok data4))) \<and>
   requested resp4 = 3 \<and> returned resp4 = min 3 4 \<and> int (length (routes resp4)) = returned resp4"
proof -
  from response_counts [OF post_data4] obtain req data rs where
    req: "parse_request cfg0 body0 = Inr req" and
    data: "osrm_get_routes cfg0 requests_lib (origin req) (destination req) (net_of (ok data4))
             = (Inr data, once (net_of (ok data4)))" and
    rs: "dict_get data ''routes'' (JArr []) = Inr (JArr rs)" and
    cnt: "requested resp4 = k req" "returned resp4 = min (k req) (int (length rs))"
         "int (length (routes resp4)) = returned resp4"
    by blast
  from req have r0: "req = req0" by (simp add: parse_body0)
  with data have d4: "data = data4" by (simp add: fetch_ok)
  from rs d4 have "length rs = 4" by (auto simp: data4_def)
  moreover have "k req0 = 3" by (simp add: req0_def)
  ultimately show ?thesis using cnt r0 post_data4 by simp
qed

text \<open>
  C6. Every option of a successful response comes from one of the first \<open>k\<close> upstream routes.
  With \<open>dist_km\<close> its distance divided by 1000, \<open>dur_min\<close> its duration divided by 60,
  \<open>fuel_l\<close> the fuel estimate and \<open>fuel_cost\<close> the fuel times the price, all four computed in
  floats, the option carries \<open>round(dist_km, 3)\<close>, \<open>round(dur_min, 1)\<close>, \<open>round(fuel_l, 3)\<close>
  and \<open>round(fuel_cost, 0)\<close>, each of them the float value rounded to that many decimal
  places, and its score (the sort key) is \<open>score_route\<close> of the four unrounded values.
\<close>

theorem route_option_fields_rounded:
  assumes "post_route_options cfg lib body calls = (Inr resp, calls')"
  shows "\<exists>req data rs.
           parse_request cfg body = Inr req \<and>
           osrm_get_routes cfg lib (origin req) (destination req) calls = (Inr data, calls') \<and>
           dict_get data ''routes'' (JArr []) = Inr (JArr rs) \<and>
           (\<forall>opt \<in> set (routes resp).
              \<exists>rt dj tj d t price dist_km dur_min fuel_l fuel_cost.
                rt \<in> set (take (nat (k req)) rs) \<and>
                getitem rt ''distance'' = Inr dj \<and> as_float dj = Inr d \<and>
                getitem rt ''duration'' = Inr tj \<and> as_float tj = Inr t \<and>
                float_of_int (fuel_price_per_liter req) = Inr price \<and>
                dist_km = fdiv d 1000 \<and> dur_min = fdiv t 60 \<and>
                fuel_l = estimate_fuel dist_km (fl64 (fuel_l_per_100km (vehicle req))) \<and>
                fuel_cost = fmul fuel_l price \<and>
                py_round dist_km 3 = Finite (distance_km opt) \<and>
                float_rounded 3 dist_km (distance_km opt) \<and>
                py_round dur_min 1 = Finite (duration_min opt) \<and>
                float_rounded 1 dur_min (duration_min opt) \<and>
                py_round fuel_l 3 = Finite (fuel_liters opt) \<and>
                float_rounded 3 fuel_l (fuel_liters opt) \<and>
                py_round fuel_cost 0 = Finite (fuel_cost_cop opt) \<and>
                float_rounded 0 fuel_cost (fuel_cost_cop opt) \<and>
                score_route (preference req) dist_km dur_min fuel_l fuel_cost
                  = Finite (score opt))"
proof -
  from handler_success [OF assms] obtain req data rs out where
    h: "parse_request cfg body = Inr req"
       "osrm_get_routes cfg lib (origin req) (destination req) calls = (Inr data, calls')"
       "dict_get data ''routes'' (JArr []) = Inr (JArr rs)" and
    len: "length out = min (nat (k req)) (length rs)" and
    each: "\<forall>i<length out. build_option req (Suc i) (rs ! i) = Inr (out ! i)" and
    resp: "resp = \<lparr> resp_preference = preference req, requested = k req,
                     returned = int (length out), routes = sort_key score out \<rparr>"
    by blast
  have "\<exists>rt dj tj d t price dist_km dur_min fuel_l fuel_cost.
          rt \<in> set (take (nat (k req)) rs) \<and>
          getitem rt ''distance'' = Inr dj \<and> as_float dj = Inr d \<and>
          getitem rt ''duration'' = Inr tj \<and> as_float tj = Inr t \<and>
          float_of_int (fuel_price_per_liter req) = Inr price \<and>
          dist_km = fdiv d 1000 \<and> dur_min = fdiv t 60 \<and>
          fuel_l = estimate_fuel dist_km (fl64 (fuel_l_per_100km (vehicle req))) \<and>
          fuel_cost = fmul fuel_l price \<and>
          py_round dist_km 3 = Finite (distance_km opt) \<and>
          float_rounded 3 dist_km (distance_km opt) \<and>
          py_round dur_min 1 = Finite (duration_min opt) \<and>
          float_rounded 1 dur_min (duration_min opt) \<and>
          py_round fuel_l 3 = Finite (fuel_liters opt) \<and>
          float_rounded 3 fuel_l (fuel_liters opt) \<and>
          py_round fuel_cost 0 = Finite (fuel_cost_cop opt) \<and>
          float_rounded 0 fuel_cost (fuel_cost_cop opt) \<and>
          score_route (preference req) dist_km dur_min fuel_l fuel_cost = Finite (score opt)"
    if mem: "opt \<in> set (routes resp)" for opt
  proof -
    from mem resp have "opt \<in> set out" by simp
    then obtain i where i: "i < length out" "out ! i = opt"
      by (auto simp: in_set_conv_nth)
    with each have b: "build_option req (Suc i) (rs ! i) = Inr opt" by auto
    from i(1) len have "i < length (take (nat (k req)) rs)" by simp
    then have "take (nat (k req)) rs ! i \<in> set (take (nat (k req)) rs)"
      by (rule nth_mem)
    moreover from i(1) len have "take (nat (k req)) rs ! i = rs ! i" by simp
    ultimately have rt: "rs ! i \<in> set (take (nat (k req)) rs)" by simp
    from build_option_fields [OF b] obtain dj tj d t price where
      f: "getitem (rs ! i) ''distance'' = Inr dj" "as_float dj = Inr d"
         "getitem (rs ! i) ''duration'' = Inr tj" "as_float tj = Inr t"
         "float_of_int (fuel_price_per_liter req) = Inr price" and
      r1: "py_round (fdiv d 1000) 3 = Finite (distance_km opt)" and
      r2: "py_round (fdiv t 60) 1 = Finite (duration_min opt)" and
      r3: "py_round (estimate_fuel (fdiv d 1000) (fl64 (fuel_l_per_100km (vehicle req)))) 3
             = Finite (fuel_liters opt)" and
      r4: "py_round (fmul (estimate_fuel (fdiv d 1000) (fl64 (fuel_l_per_100km (vehicle req))))
                      price) 0
             = Finite (fuel_cost_cop opt)" and
      r5: "score_route (preference req) (fdiv d 1000) (fdiv t 60)
               (estimate_fuel (fdiv d 1000) (fl64 (fuel_l_per_100km (vehicle req))))
               (fmul (estimate_fuel (fdiv d 1000) (fl64 (fuel_l_per_100km (vehicle req)))) price)
             = Finite (score opt)"
      by blast
    note m1 = py_round_float_rounded [OF r1] and m2 = py_round_float_rounded [OF r2]
      and m3 = py_round_float_rounded [OF r3] and m4 = py_round_float_rounded [OF r4]
    show ?thesis
      apply (rule exI [of _ "rs ! i"], rule exI [of _ dj], rule exI [of _ tj])
      apply (rule exI [of _ d], rule exI [of _ t], rule exI [of _ price])
      apply (rule exI [of _ "fdiv d 1000"], rule exI [of _ "fdiv t 60"])
      apply (rule exI [of _ "estimate_fuel (fdiv d 1000) (fl64 (fuel_l_per_100km (vehicle req)))"])
      apply (rule exI [of _ "fmul (estimate_fuel (fdiv d 1000)
                               (fl64 (fuel_l_per_100km (vehicle req)))) price"])
      using rt f r1 r2 r3 r4 r5 m1 m2 m3 m4 by (intro conjI refl)
  qed
  with h show ?thesis by blast
qed

theorem route_option_fields_rounded_witness:
  "post_route_options cfg0 requests_lib body0 (net_of (ok data4))
     = (Inr resp4, once (net_of (ok data4))) \<and>
   opt1 \<in> set (routes resp4) \<and>
   (\<exists>dist_km dur_min fuel_l fuel_cost.
      py_round dist_km 3 = Finite (distance_km opt1) \<and>
      float_rounded 3 dist_km (distance_km opt1) \<and>
      py_round dur_min 1 = Finite (duration_min opt1) \<and>
      float_rounded 1 dur_min (duration_min opt1) \<and>
      py_round fuel_l 3 = Finite (fuel_liters opt1) \<and>
      float_rounded 3 fuel_l (fuel_liters opt1) \<and>
      py_round fuel_cost 0 = Finite (fuel_cost_cop opt1) \<and>
      float_rounded 0 fuel_cost (fuel_cost_cop opt1) \<and>
      score_route ''FASTEST'' dist_km dur_min fuel_l fuel_cost = Finite (score opt1)) \<and>
   distance_km opt1 = f64 (12346 / 1000) \<and> duration_min opt1 = 10 \<and>
   fuel_liters opt1 = f64 (926 / 1000) \<and> fuel_cost_cop opt1 = 13889 \<and>
   score opt1 = f64 (601 / 60) \<and> score opt1 \<noteq> duration_min opt1"
proof -
  have mem: "opt1 \<in> set (routes resp4)"
    by (simp add: resp4_def)
  from route_option_fields_rounded [OF post_data4] obtain req data rs where
    all: "parse_request cfg0 body0 = Inr req \<and>
          osrm_get_routes cfg0 requests_lib (origin req) (destination req) (net_of (ok data4))
            = (Inr data, once (net_of (ok data4))) \<and>
          dict_get data ''routes'' (JArr []) = Inr (JArr rs) \<and>
          (\<forall>opt \<in> set (routes resp4).
            \<exists>rt dj tj d t price dist_km dur_min fuel_l fuel_cost.
              rt \<in> set (take (nat (k req)) rs) \<and>
              getitem rt ''distance'' = Inr dj \<and> as_float dj = Inr d \<and>
              getitem rt ''duration'' = Inr tj \<and> as_float tj = Inr t \<and>
              float_of_int (fuel_price_per_liter req) = Inr price \<and>
              dist_km = fdiv d 1000 \<and> dur_min = fdiv t 60 \<and>
              fuel_l = estimate_fuel dist_km (fl64 (fuel_l_per_100km (vehicle req))) \<and>
              fuel_cost = fmul fuel_l price \<and>
              py_round dist_km 3 = Finite (distance_km opt) \<and>
              float_rounded 3 dist_km (distance_km opt) \<and>
              py_round dur_min 1 = Finite (duration_min opt) \<and>
              float_rounded 1 dur_min (duration_min opt) \<and>
              py_round fuel_l 3 = Finite (fuel_liters opt) \<and>
              float_rounded 3 fuel_l (fuel_liters opt) \<and>
              py_round fuel_cost 0 = Finite (fuel_cost_cop opt) \<and>
              float_rounded 0 fuel_cost (fuel_cost_cop opt) \<and>
              score_route (preference req) dist_km dur_min fuel_l fuel_cost
                = Finite (score opt))"
    by (elim exE) (rule that)
  from all have "req = req0" by (simp add: parse_body0)
  then have p: "preference req = ''FASTEST''" by (simp add: req0_def)
  from all mem have
    "\<exists>rt dj tj d t price dist_km dur_min fuel_l fuel_cost.
              rt \<in> set (take (nat (k req)) rs) \<and>
              getitem rt ''distance'' = Inr dj \<and> as_float dj = Inr d \<and>
              getitem rt ''duration'' = Inr tj \<and> as_float tj = Inr t \<and>
              float_of_int (fuel_price_per_liter req) = Inr price \<and>
              dist_km = fdiv d 1000 \<and> dur_min = fdiv t 60 \<and>
              fuel_l = estimate_fuel dist_km (fl64 (fuel_l_per_100km (vehicle req))) \<and>
              fuel_cost = fmul fuel_l price \<and>
              py_round dist_km 3 = Finite (distance_km opt1) \<and>
              float_rounded 3 dist_km (distance_km opt1) \<and>
              py_round dur_min 1 = Finite (duration_min opt1) \<and>
              float_rounded 1 dur_min (duration_min opt1) \<and>
              py_round fuel_l 3 = Finite (fuel_liters opt1) \<and>
              float_rounded 3 fuel_l (fuel_liters opt1) \<and>
              py_round fuel_cost 0 = Finite (fuel_cost_cop opt1) \<and>
              float_rounded 0 fuel_cost (fuel_cost_cop opt1) \<and>
              score_route (preference req) dist_km dur_min fuel_l fuel_cost
                = Finite (score opt1)"
    by (elim conjE) (erule bspec)
  then obtain dist_km dur_min fuel_l fuel_cost where
    "py_round dist_km 3 = Finite (distance_km opt1) \<and>
     float_rounded 3 dist_km (distance_km opt1) \<and>
     py_round dur_min 1 = Finite (duration_min opt1) \<and>
     float_rounded 1 dur_min (duration_min opt1) \<and>
     py_round fuel_l 3 = Finite (fuel_liters opt1) \<and>
     float_rounded 3 fuel_l (fuel_liters opt1) \<and>
     py_round fuel_cost 0 = Finite (fuel_cost_cop opt1) \<and>
     float_rounded 0 fuel_cost (fuel_cost_cop opt1) \<and>
     score_route ''FASTEST'' dist_km dur_min fuel_l fuel_cost = Finite (score opt1)"
    unfolding p by (elim exE conjE) (rule that, intro conjI, assumption+)
  then have ex: "\<exists>dist_km dur_min fuel_l fuel_cost.
      py_round dist_km 3 = Finite (distance_km opt1) \<and>
      float_rounded 3 dist_km (distance_km opt1) \<and>
      py_round dur_min 1 = Finite (duration_min opt1) \<and>
      float_rounded 1 dur_min (duration_min opt1) \<and>
      py_round fuel_l 3 = Finite (fuel_liters opt1) \<and>
      float_rounded 3 fuel_l (fuel_liters opt1) \<and>
      py_round fuel_cost 0 = Finite (fuel_cost_cop opt1) \<and>
      float_rounded 0 fuel_cost (fuel_cost_cop opt1) \<and>
      score_route ''FASTEST'' dist_km dur_min fuel_l fuel_cost = Finite (score opt1)"
    by (intro exI)
  have vals: "distance_km opt1 = f64 (12346 / 1000)" "duration_min opt1 = 10"
    "fuel_liters opt1 = f64 (926 / 1000)" "fuel_cost_cop opt1 = 13889"
    "score opt1 = f64 (601 / 60)"
    by (simp_all add: opt1_def)
  have ne: "score opt1 \<noteq> duration_min opt1"
    by (simp add: opt1_def f64_def f64_eval)
  from post_data4 mem ex vals ne show ?thesis by (intro conjI)
qed

text \<open>
  C3. When the fetch succeeds and the body's \<open>routes\<close> is the empty list, the handler fails
  with the error 404; it does not return a response.
\<close>

theorem empty_routes_not_found:
  assumes "osrm_get_routes cfg lib (origin req) (destination req) calls = (Inr (JObj kvs), calls')"
    and "map_of kvs ''routes'' = Some (JArr [])"
  shows "route_options cfg lib req calls =
           (Inl (HTTPException 404 ''No se encontraron rutas''), calls') \<and>
         status_code (HTTPException 404 ''No se encontraron rutas'') = 404 \<and>
         (\<forall>resp. fst (route_options cfg lib req calls) \<noteq> Inr resp)"
proof -
  from assms(2) have "dict_get (JObj kvs) ''routes'' (JArr []) = Inr (JArr [])" by simp
  then have "rank_routes req (JObj kvs) = Inl (HTTPException 404 ''No se encontraron rutas'')"
    by (rule rank_routes_no_routes)
  with assms(1) show ?thesis by (simp add: route_options_def)
qed

theorem empty_routes_not_found_witness:
  "osrm_get_routes cfg0 requests_lib (origin req0) (destination req0)
       (net_of (ok (JObj data_empty)))
     = (Inr (JObj data_empty), once (net_of (ok (JObj data_empty)))) \<and>
   map_of data_empty ''routes'' = Some (JArr []) \<and>
   route_options cfg0 requests_lib req0 (net_of (ok (JObj data_empty)))
     = (Inl (HTTPException 404 ''No se encontraron rutas''),
        once (net_of (ok (JObj data_empty))))"
proof -
  note f = fetch_ok [of "JObj data_empty"]
  have m: "map_of data_empty ''routes'' = Some (JArr [])"
    by (simp add: data_empty_def)
  from empty_routes_not_found [OF f m] f m show ?thesis by simp
qed

text \<open>
  C10. When the fetch succeeds and the body has no \<open>routes\<close> key, the handler fails with the
  same error 404 as for an empty list: ranking the body gives the same result as ranking
  the body with \<open>routes\<close> set to the empty list.
\<close>

theorem missing_routes_key_not_found:
  assumes "osrm_get_routes cfg lib (origin req) (destination req) calls = (Inr (JObj kvs), calls')"
    and "map_of kvs ''routes'' = None"
  shows "route_options cfg lib req calls =
           (Inl (HTTPException 404 ''No se encontraron rutas''), calls') \<and>
         status_code (HTTPException 404 ''No se encontraron rutas'') = 404 \<and>
         rank_routes req (JObj kvs) = rank_routes req (JObj (kvs @ [(''routes'', JArr [])]))"
proof -
  from assms(2) have "dict_get (JObj kvs) ''routes'' (JArr []) = Inr (JArr [])" by simp
  then have a: "rank_routes req (JObj kvs) = Inl (HTTPException 404 ''No se encontraron rutas'')"
    by (rule rank_routes_no_routes)
  from assms(2) have "dict_get (JObj (kvs @ [(''routes'', JArr [])])) ''routes'' (JArr []) = Inr (JArr [])"
    by (simp add: map_add_def)
  then have b: "rank_routes req (JObj (kvs @ [(''routes'', JArr [])])) =
                  Inl (HTTPException 404 ''No se encontraron rutas'')"
    by (rule rank_routes_no_routes)
  from assms(1) a b show ?thesis by (simp add: route_options_def)
qed

theorem missing_routes_key_not_found_witness:
  "osrm_get_routes cfg0 requests_lib (origin req0) (destination req0)
       (net_of (ok (JObj data_nokey)))
     = (Inr (JObj data_nokey), once (net_of (ok (JObj data_nokey)))) \<and>
   map_of data_nokey ''routes'' = None \<and>
   route_options cfg0 requests_lib req0 (net_of (ok (JObj data_nokey)))
     = (Inl (HTTPException 404 ''No se encontraron rutas''),
        once (net_of (ok (JObj data_nokey))))"
proof -
  note f = fetch_ok [of "JObj data_nokey"]
  have m: "map_of data_nokey ''routes'' = None"
    by (simp add: data_nokey_def)
  from missing_routes_key_not_found [OF f m] f m show ?thesis by simp
qed

end
